theory Spec2Isabelle
  imports Main "HOL-Library.Word" "HOL-Library.AList"
begin

section \<open>JavaScript values\<close>

text \<open>
  A JavaScript string is a sequence of 16-bit code units; \<open>substring\<close>, \<open>includes\<close>,
  \<open>split\<close> and \<open>trim\<close> all count and compare code units. ASCII literals of the source
  are written \<open>ascii ''...''\<close>; the Chinese literals are spelled out as code units, each
  with the line of the source it stands on.
\<close>

type_synonym jsstring = "16 word list"

definition ascii :: "string \<Rightarrow> jsstring" where
  "ascii s = map of_char s"

text \<open>
  The values that flow through \<open>api/gemini.ts\<close> and \<open>geminiService.ts\<close>: whatever
  \<open>JSON.parse\<close> produces, and \<open>undefined\<close> for a missing property. IEEE doubles are not
  modelled: the number type is a parameter \<open>'n\<close>, and the three things that happen to a
  number here (\<open>ToBoolean\<close>, \<open>ToString\<close>, and reading a JSON number token) are the
  fields of \<open>number_ops\<close>. An object is the list of its properties; where a name occurs
  twice the first occurrence is the property (\<open>JSON_parse\<close> below builds no such list).
\<close>

datatype 'n jsval =
    JUndefined
  | JNull
  | JBool bool
  | JNum 'n
  | JStr jsstring
  | JArr "'n jsval list"
  | JObj "(jsstring \<times> 'n jsval) list"

record 'n number_ops =
  num_to_boolean :: "'n \<Rightarrow> bool"
  num_to_string :: "'n \<Rightarrow> jsstring"
  num_of_token :: "jsstring \<Rightarrow> 'n"

text \<open>A one-point number type, for evaluating inputs in which no number occurs.\<close>

definition no_numbers :: "unit number_ops" where
  "no_numbers = \<lparr>num_to_boolean = (\<lambda>_. True), num_to_string = (\<lambda>_. []), num_of_token = (\<lambda>_. ())\<rparr>"

text \<open>
  A thrown value. Everything thrown in these two files is an \<open>Error\<close> object (a
  \<open>TypeError\<close> of the engine, a \<open>SyntaxError\<close> of \<open>JSON.parse\<close>, a rejection of
  \<open>fetch\<close>), and the code reads only its \<open>message\<close>. The wording of engine messages
  follows V8; nothing proved below depends on it.
\<close>

datatype error_kind = TypeError | SyntaxError | FetchError

datatype js_error = JsError error_kind (message: jsstring)

definition and_then :: "js_error + 'a \<Rightarrow> ('a \<Rightarrow> js_error + 'b) \<Rightarrow> js_error + 'b" where
  "and_then m f = (case m of Inl e \<Rightarrow> Inl e | Inr x \<Rightarrow> f x)"

subsection \<open>Truthiness, \<open>||\<close>, property access\<close>

fun to_boolean :: "'n number_ops \<Rightarrow> 'n jsval \<Rightarrow> bool" where
  "to_boolean N JUndefined = False"
| "to_boolean N JNull = False"
| "to_boolean N (JBool b) = b"
| "to_boolean N (JNum n) = num_to_boolean N n"
| "to_boolean N (JStr s) = (s \<noteq> [])"
| "to_boolean N (JArr xs) = True"
| "to_boolean N (JObj kvs) = True"

text \<open>\<open>a || b\<close>, for an operand \<open>b\<close> whose evaluation cannot throw.\<close>

definition js_or :: "'n number_ops \<Rightarrow> 'n jsval \<Rightarrow> 'n jsval \<Rightarrow> 'n jsval" where
  "js_or N a b = (if to_boolean N a then a else b)"

definition cannot_read :: "jsstring \<Rightarrow> jsstring \<Rightarrow> js_error" where
  "cannot_read what k =
     JsError TypeError (ascii ''Cannot read properties of '' @ what @ ascii '' (reading '' @ [0x27] @ k @ [0x27] @ ascii '')'')"

text \<open>
  \<open>v.k\<close> for the property names the source uses (\<open>text\<close>, \<open>image\<close>, \<open>file\<close>,
  \<open>base64\<close>, \<open>mimeType\<close>, \<open>error\<close>, \<open>message\<close>, \<open>candidates\<close>, \<open>content\<close>,
  \<open>parts\<close>, \<open>summary\<close>, \<open>keyPoints\<close>, \<open>conclusion\<close>, \<open>detailedAnalysis\<close>). None of
  them is inherited from a prototype, so on an object the result is the own property or
  \<open>undefined\<close>, on any other non-nullish value \<open>undefined\<close>; on \<open>null\<close> and
  \<open>undefined\<close> the access throws.
\<close>

fun field :: "'n jsval \<Rightarrow> jsstring \<Rightarrow> js_error + 'n jsval" where
  "field JUndefined k = Inl (cannot_read (ascii ''undefined'') k)"
| "field JNull k = Inl (cannot_read (ascii ''null'') k)"
| "field (JObj kvs) k = Inr (case map_of kvs k of None \<Rightarrow> JUndefined | Some v \<Rightarrow> v)"
| "field v k = Inr JUndefined"

text \<open>
  \<open>v[i]\<close> for a numeric index: an array element, the one-unit string at that position
  of a string, the own property named by the decimal index of an object.
\<close>

function decimal :: "nat \<Rightarrow> jsstring" where
  "decimal n = (if n < 10 then [of_nat (48 + n)] else decimal (n div 10) @ [of_nat (48 + n mod 10)])"
  by pat_completeness auto
termination
  by (relation "measure id") auto

declare decimal.simps [simp del]

fun index :: "'n jsval \<Rightarrow> nat \<Rightarrow> js_error + 'n jsval" where
  "index JUndefined i = Inl (cannot_read (ascii ''undefined'') (decimal i))"
| "index JNull i = Inl (cannot_read (ascii ''null'') (decimal i))"
| "index (JArr xs) i = Inr (if i < length xs then xs ! i else JUndefined)"
| "index (JStr s) i = Inr (if i < length s then JStr [s ! i] else JUndefined)"
| "index (JObj kvs) i = Inr (case map_of kvs (decimal i) of None \<Rightarrow> JUndefined | Some v \<Rightarrow> v)"
| "index v i = Inr JUndefined"

text \<open>Optional chaining: \<open>v?.k\<close> and \<open>v?.[i]\<close> are \<open>undefined\<close> on a nullish \<open>v\<close>.\<close>

definition opt_field :: "'n jsval \<Rightarrow> jsstring \<Rightarrow> 'n jsval" where
  "opt_field v k = (case field v k of Inl e \<Rightarrow> JUndefined | Inr x \<Rightarrow> x)"

definition opt_index :: "'n jsval \<Rightarrow> nat \<Rightarrow> 'n jsval" where
  "opt_index v i = (case index v i of Inl e \<Rightarrow> JUndefined | Inr x \<Rightarrow> x)"

subsection \<open>\<open>ToString\<close>, as a template literal applies it\<close>

text \<open>
  On values that come out of \<open>JSON.parse\<close>: an array is joined with commas, nullish
  elements rendered empty; an object is \<open>[object Object]\<close> unless it has an own
  property \<open>toString\<close>, which (being data, not a function) hides
  \<open>Object.prototype.toString\<close> and leaves no way to a primitive: a \<open>TypeError\<close>.
\<close>

fun to_string :: "'n number_ops \<Rightarrow> 'n jsval \<Rightarrow> js_error + jsstring"
  and join_elements :: "'n number_ops \<Rightarrow> 'n jsval list \<Rightarrow> js_error + jsstring" where
  "to_string N JUndefined = Inr (ascii ''undefined'')"
| "to_string N JNull = Inr (ascii ''null'')"
| "to_string N (JBool b) = Inr (if b then ascii ''true'' else ascii ''false'')"
| "to_string N (JNum n) = Inr (num_to_string N n)"
| "to_string N (JStr s) = Inr s"
| "to_string N (JArr xs) = join_elements N xs"
| "to_string N (JObj kvs) =
     (if map_of kvs (ascii ''toString'') = None then Inr (ascii ''[object Object]'')
      else Inl (JsError TypeError (ascii ''Cannot convert object to primitive value'')))"
| "join_elements N [] = Inr []"
| "join_elements N (x # xs) =
     (case (if x = JUndefined \<or> x = JNull then Inr [] else to_string N x) of
        Inl e \<Rightarrow> Inl e
      | Inr a \<Rightarrow>
          (if xs = [] then Inr a
           else case join_elements N xs of
                  Inl e \<Rightarrow> Inl e
                | Inr b \<Rightarrow> Inr (a @ ascii '','' @ b)))"

section \<open>HTTP, as both files see it\<close>

text \<open>
  A call of \<open>fetch\<close>: the URL and the options. \<open>rq_body\<close> is the value handed to
  \<open>JSON.stringify\<close> (trees of defined JSON values here, on which it cannot fail);
  \<open>rq_agent\<close> is the proxy the call goes through, if any. \<open>fetch\<close> itself is the
  environment: a function that rejects or resolves to a response, whose \<open>json()\<close>
  in turn rejects (body not JSON) or resolves to the parsed body.
\<close>

record 'n fetch_request =
  rq_url :: jsstring
  rq_method :: jsstring
  rq_headers :: "(jsstring \<times> jsstring) list"
  rq_body :: "'n jsval"
  rq_agent :: "jsstring option"

record 'n fetch_response =
  status :: nat
  json :: "js_error + 'n jsval"

type_synonym 'n fetch = "'n fetch_request \<Rightarrow> js_error + 'n fetch_response"

text \<open>\<open>Response.ok\<close>: the status is in the range 200-299.\<close>

definition ok :: "'n fetch_response \<Rightarrow> bool" where
  "ok r = (200 \<le> status r \<and> status r < 300)"

section \<open>The gateway: \<open>handler\<close> of \<open>api/gemini.ts\<close>\<close>

text \<open>
  The message literals of the source, as code units. In order: the 405 message up to the
  interpolated method (line 26), the 400 message (line 34), the 429 message (line 113),
  the prefix of the fallback upstream message (line 120), the fallback internal message
  (line 130).
\<close>

definition method_not_allowed_prefix :: jsstring where
  "method_not_allowed_prefix =
     [0x4EC5, 0x652F, 0x6301] @ ascii '' POST /api/gemini'' @ [0xFF0C, 0x8BF7, 0x4F7F, 0x7528] @
     ascii '' POST '' @ [0x8BF7, 0x6C42, 0x3002, 0x5F53, 0x524D, 0x65B9, 0x6CD5] @ ascii '': ''"

definition invalid_request_message :: jsstring where
  "invalid_request_message =
     [0x8BF7, 0x6C42] @ ascii '' body '' @
     [0x4E0D, 0x80FD, 0x4E3A, 0x7A7A, 0xFF0C, 0x8BF7, 0x81F3, 0x5C11, 0x63D0, 0x4F9B] @
     ascii '' text'' @ [0x3001] @ ascii ''image '' @ [0x6216] @ ascii '' file.base64 '' @
     [0x5176, 0x4E2D, 0x4E4B, 0x4E00, 0x3002]"

definition rate_limit_message :: jsstring where
  "rate_limit_message =
     ascii ''Google Gemini API '' @
     [0x8C03, 0x7528, 0x989D, 0x5EA6, 0x5DF2, 0x8D85, 0x9650, 0xFF0C, 0x8BF7, 0x7A0D, 0x540E,
      0x91CD, 0x8BD5, 0x6216, 0x68C0, 0x67E5, 0x914D, 0x989D, 0x8BBE, 0x7F6E, 0x3002]"

definition upstream_error_prefix :: jsstring where
  "upstream_error_prefix =
     [0x4E0A, 0x6E38, 0x670D, 0x52A1, 0x8FD4, 0x56DE, 0x9519, 0x8BEF] @ ascii '': ''"

definition internal_error_default :: jsstring where
  "internal_error_default = ascii ''Gemini '' @ [0x4EE3, 0x7406, 0x5185, 0x90E8, 0x9519, 0x8BEF]"

definition API_URL :: jsstring where
  "API_URL =
     ascii ''https://generativelanguage.googleapis.com/v1beta/models/gemini-3-flash-preview:generateContent''"

text \<open>
  \<open>process.env\<close>, as far as the handler reads it (\<open>VERCEL\<close> only selects which lines
  are logged; logging is not modelled). A variable is a string or unset.
\<close>

record environment =
  GOOGLE_API_KEY :: "jsstring option"
  NODE_ENV :: "jsstring option"
  HTTP_PROXY :: "jsstring option"

text \<open>
  The inbound request (\<open>req.method\<close>, \<open>req.body\<close>, the latter \<open>undefined\<close> when
  there is none) and what \<open>res.status(...).json(...)\<close> sends back.
\<close>

record 'n api_request =
  req_method :: "jsstring option"
  req_body :: "'n jsval"

record 'n api_reply =
  res_status :: nat
  res_body :: "'n jsval"

text \<open>
  \<open>await import('https-proxy-agent')\<close> followed by \<open>new HttpsProxyAgent(proxy)\<close>:
  throws or yields an agent, which is identified by the proxy address.
\<close>

type_synonym agent_loader = "jsstring \<Rightarrow> js_error + unit"

text \<open>
  Line 31, in its evaluation order: \<open>!req.body || (!req.body.text && !req.body.image &&
  !(req.body.file && req.body.file.base64))\<close>.
\<close>

definition body_rejected :: "'n number_ops \<Rightarrow> 'n jsval \<Rightarrow> js_error + bool" where
  "body_rejected N b =
     (if to_boolean N b then
        and_then (field b (ascii ''text'')) (\<lambda>t.
          if to_boolean N t then Inr False
          else and_then (field b (ascii ''image'')) (\<lambda>i.
            if to_boolean N i then Inr False
            else and_then (field b (ascii ''file'')) (\<lambda>f.
              if to_boolean N f then
                and_then (field f (ascii ''base64'')) (\<lambda>d. Inr (if to_boolean N d then False else True))
              else Inr True)))
      else Inr True)"

text \<open>Lines 63-87: the \<open>parts\<close> array of \<open>contents[0]\<close>.\<close>

definition inline_data :: "'n jsval \<Rightarrow> 'n jsval \<Rightarrow> 'n jsval" where
  "inline_data mime d = JObj [(ascii ''inlineData'', JObj [(ascii ''mimeType'', mime), (ascii ''data'', d)])]"

definition build_parts :: "'n number_ops \<Rightarrow> 'n jsval \<Rightarrow> js_error + 'n jsval list" where
  "build_parts N b =
     and_then (field b (ascii ''text'')) (\<lambda>t.
     and_then (field b (ascii ''image'')) (\<lambda>i.
     and_then (field b (ascii ''file'')) (\<lambda>f.
     and_then (if to_boolean N f then field f (ascii ''base64'') else Inr f) (\<lambda>d.
     and_then (if to_boolean N d then field f (ascii ''mimeType'') else Inr JUndefined) (\<lambda>m.
       Inr ([JObj [(ascii ''text'', js_or N t (JStr (ascii ''Hello'')))]]
            @ (if to_boolean N i then [inline_data (JStr (ascii ''image/jpeg'')) i] else [])
            @ (if to_boolean N d
               then [inline_data (js_or N m (JStr (ascii ''application/octet-stream''))) d]
               else [])))))))"

text \<open>Lines 95-103: the proxy is used only when \<open>NODE_ENV\<close> is \<open>development\<close>.\<close>

definition proxy_agent :: "environment \<Rightarrow> agent_loader \<Rightarrow> js_error + jsstring option" where
  "proxy_agent env load =
     (if NODE_ENV env = Some (ascii ''development'') then
        (case HTTP_PROXY env of
           None \<Rightarrow> Inr None
         | Some proxy \<Rightarrow>
             if proxy = [] then Inr None
             else and_then (load proxy) (\<lambda>_. Inr (Some proxy)))
      else Inr None)"

text \<open>Lines 63-105: the arguments of the one call of \<open>fetch\<close>.\<close>

definition upstream_request ::
  "'n number_ops \<Rightarrow> environment \<Rightarrow> agent_loader \<Rightarrow> 'n jsval \<Rightarrow> js_error + 'n fetch_request" where
  "upstream_request N env load b =
     and_then (build_parts N b) (\<lambda>parts.
     and_then (proxy_agent env load) (\<lambda>agent.
       Inr \<lparr>rq_url = API_URL @ ascii ''?key='' @
                      (case GOOGLE_API_KEY env of None \<Rightarrow> ascii ''undefined'' | Some k \<Rightarrow> k),
            rq_method = ascii ''POST'',
            rq_headers = [(ascii ''Content-Type'', ascii ''application/json'')],
            rq_body = JObj [(ascii ''contents'', JArr [JObj [(ascii ''parts'', JArr parts)]])],
            rq_agent = agent\<rparr>))"

text \<open>Lines 108-125: what is sent back once the upstream body \<open>data\<close> has been read.\<close>

definition relay :: "'n number_ops \<Rightarrow> 'n fetch_response \<Rightarrow> 'n jsval \<Rightarrow> js_error + 'n api_reply" where
  "relay N response data =
     (if ok response then Inr \<lparr>res_status = 200, res_body = data\<rparr>
      else if status response = 429 then
        Inr \<lparr>res_status = 429,
             res_body = JObj [(ascii ''error'', JStr (ascii ''RATE_LIMIT'')),
                              (ascii ''message'', JStr rate_limit_message),
                              (ascii ''raw'', data)]\<rparr>
      else
        and_then (field data (ascii ''error'')) (\<lambda>e.
        and_then (if to_boolean N (opt_field e (ascii ''message'')) then Inr (opt_field e (ascii ''message''))
                  else field data (ascii ''message'')) (\<lambda>m.
          Inr \<lparr>res_status = status response,
               res_body = JObj [(ascii ''error'', JStr (ascii ''UPSTREAM_ERROR'')),
                                (ascii ''message'',
                                   js_or N m (JStr (upstream_error_prefix @ decimal (status response)))),
                                (ascii ''raw'', data)]\<rparr>)))"

text \<open>
  The \<open>try\<close> block, lines 61-125, with the calls of \<open>fetch\<close> it has made: a reply, or
  the exception that ends it.
\<close>

definition handler_try ::
  "'n number_ops \<Rightarrow> environment \<Rightarrow> agent_loader \<Rightarrow> 'n fetch \<Rightarrow> 'n jsval \<Rightarrow>
     (js_error + 'n api_reply) \<times> 'n fetch_request list" where
  "handler_try N env load fetch b =
     (case upstream_request N env load b of
        Inl e \<Rightarrow> (Inl e, [])
      | Inr rq \<Rightarrow>
          (case fetch rq of
             Inl e \<Rightarrow> (Inl e, [rq])
           | Inr response \<Rightarrow>
               (case json response of
                  Inl e \<Rightarrow> (Inl e, [rq])
                | Inr data \<Rightarrow> (relay N response data, [rq]))))"

text \<open>
  The handler: the reply and the upstream calls made, or an exception that escapes
  (the method and body checks of lines 15-36 are outside the \<open>try\<close>).
\<close>

definition handler ::
  "'n number_ops \<Rightarrow> environment \<Rightarrow> agent_loader \<Rightarrow> 'n fetch \<Rightarrow> 'n api_request \<Rightarrow>
     js_error + ('n api_reply \<times> 'n fetch_request list)" where
  "handler N env load fetch req =
     (if req_method req = Some (ascii ''GET'') then
        Inr (\<lparr>res_status = 200,
              res_body = JObj [(ascii ''ok'', JBool True),
                               (ascii ''message'', JStr (ascii ''Gemini proxy is running''))]\<rparr>, [])
      else if req_method req \<noteq> Some (ascii ''POST'') then
        Inr (\<lparr>res_status = 405,
              res_body = JObj [(ascii ''error'', JStr (ascii ''METHOD_NOT_ALLOWED'')),
                               (ascii ''message'',
                                  JStr (method_not_allowed_prefix @
                                        (case req_method req of None \<Rightarrow> ascii ''undefined'' | Some m \<Rightarrow> m)))]\<rparr>, [])
      else
        and_then (body_rejected N (req_body req)) (\<lambda>rejected.
          if rejected then
            Inr (\<lparr>res_status = 400,
                  res_body = JObj [(ascii ''error'', JStr (ascii ''INVALID_REQUEST'')),
                                   (ascii ''message'', JStr invalid_request_message)]\<rparr>, [])
          else
            (case handler_try N env load fetch (req_body req) of
               (Inr reply, calls) \<Rightarrow> Inr (reply, calls)
             | (Inl e, calls) \<Rightarrow>
                 Inr (\<lparr>res_status = 500,
                       res_body = JObj [(ascii ''error'', JStr (ascii ''INTERNAL_ERROR'')),
                                        (ascii ''message'',
                                           js_or N (JStr (message e)) (JStr internal_error_default))]\<rparr>,
                      calls))))"

section \<open>Strings and \<open>JSON.parse\<close>\<close>

subsection \<open>The string methods \<open>geminiService.ts\<close> calls\<close>

text \<open>\<open>s.includes(x)\<close>: \<open>x\<close> occurs in \<open>s\<close> as a contiguous run.\<close>

fun contains :: "jsstring \<Rightarrow> jsstring \<Rightarrow> bool" where
  "contains x [] = (x = [])"
| "contains x (c # cs) = (if take (length x) (c # cs) = x then True else contains x cs)"

text \<open>
  \<open>s.replace(/```json|```/g, '')\<close>: scanning from the left, every match of the longer
  alternative, else of the shorter, is deleted, and the scan resumes behind it.
\<close>

definition fence :: jsstring where
  "fence = [0x60, 0x60, 0x60]"

fun strip_fences :: "jsstring \<Rightarrow> jsstring" where
  "strip_fences [] = []"
| "strip_fences (c # cs) =
     (if take 7 (c # cs) = fence @ ascii ''json'' then strip_fences (drop 6 cs)
      else if take 3 (c # cs) = fence then strip_fences (drop 2 cs)
      else c # strip_fences cs)"

text \<open>\<open>s.trim()\<close> removes the white space and line terminators of ECMAScript at both ends.\<close>

definition is_js_whitespace :: "16 word \<Rightarrow> bool" where
  "is_js_whitespace c =
     (c \<in> set [0x9, 0xA, 0xB, 0xC, 0xD, 0x20, 0xA0, 0x1680, 0x2000, 0x2001, 0x2002, 0x2003,
               0x2004, 0x2005, 0x2006, 0x2007, 0x2008, 0x2009, 0x200A, 0x2028, 0x2029, 0x202F,
               0x205F, 0x3000, 0xFEFF])"

definition trim :: "jsstring \<Rightarrow> jsstring" where
  "trim s = rev (dropWhile is_js_whitespace (rev (dropWhile is_js_whitespace s)))"

text \<open>\<open>s.split(sep)\<close> for a separator of one code unit.\<close>

fun split_at :: "16 word \<Rightarrow> jsstring \<Rightarrow> jsstring list" where
  "split_at sep [] = [[]]"
| "split_at sep (c # cs) =
     (case split_at sep cs of
        [] \<Rightarrow> [[c]]
      | seg # segs \<Rightarrow> if c = sep then [] # seg # segs else (c # seg) # segs)"

text \<open>
  The three method calls on \<open>aiResponse\<close>, which is whatever the upstream body held:
  \<open>includes\<close> exists on strings and arrays, \<open>replace\<close> and \<open>substring\<close> on strings
  only; calling a method a value does not have is a \<open>TypeError\<close>.
\<close>

definition not_a_function :: "string \<Rightarrow> js_error" where
  "not_a_function name = JsError TypeError (ascii name @ ascii '' is not a function'')"

fun js_includes :: "'n jsval \<Rightarrow> jsstring \<Rightarrow> js_error + bool" where
  "js_includes (JStr s) x = Inr (contains x s)"
| "js_includes (JArr xs) x = Inr (JStr x \<in> set xs)"
| "js_includes v x = Inl (not_a_function ''aiResponse.includes'')"

fun js_strip_fences :: "'n jsval \<Rightarrow> js_error + jsstring" where
  "js_strip_fences (JStr s) = Inr (strip_fences s)"
| "js_strip_fences v = Inl (not_a_function ''aiResponse.replace'')"

fun js_substring :: "'n jsval \<Rightarrow> nat \<Rightarrow> nat \<Rightarrow> js_error + jsstring" where
  "js_substring (JStr s) i j = Inr (take (j - i) (drop i s))"
| "js_substring v i j = Inl (not_a_function ''aiResponse.substring'')"

subsection \<open>\<open>JSON.parse\<close>\<close>

text \<open>
  The JSON grammar of ECMA-404, by recursive descent. White space is space, tab, line
  feed and carriage return. A string literal has no raw control character, and the
  escapes are the eight single-letter ones and \<open>\uXXXX\<close>.
\<close>

definition skip_ws :: "jsstring \<Rightarrow> jsstring" where
  "skip_ws s = dropWhile (\<lambda>c. c \<in> set [0x20, 0x9, 0xA, 0xD]) s"

definition hex_value :: "16 word \<Rightarrow> 16 word option" where
  "hex_value c =
     (if 0x30 \<le> c \<and> c \<le> 0x39 then Some (c - 0x30)
      else if 0x61 \<le> c \<and> c \<le> 0x66 then Some (c - 0x57)
      else if 0x41 \<le> c \<and> c \<le> 0x46 then Some (c - 0x37)
      else None)"

definition escape :: "16 word \<Rightarrow> 16 word option" where
  "escape c =
     (if c = 0x22 then Some 0x22 else if c = 0x5C then Some 0x5C else if c = 0x2F then Some 0x2F
      else if c = 0x62 then Some 0x8 else if c = 0x66 then Some 0xC else if c = 0x6E then Some 0xA
      else if c = 0x72 then Some 0xD else if c = 0x74 then Some 0x9 else None)"

text \<open>
  The rest of a string literal, behind its opening quote: the string and what follows
  the closing quote. \<open>acc\<close> holds the units read so far, last first.
\<close>

fun string_tail :: "jsstring \<Rightarrow> jsstring \<Rightarrow> (jsstring \<times> jsstring) option" where
  "string_tail acc [] = None"
| "string_tail acc (c # cs) =
     (if c = 0x22 then Some (rev acc, cs)
      else if c = 0x5C then
        (case cs of
           [] \<Rightarrow> None
         | e # es \<Rightarrow>
             if e = 0x75 then
               (case es of
                  h1 # h2 # h3 # h4 # rest \<Rightarrow>
                    (case (hex_value h1, hex_value h2, hex_value h3, hex_value h4) of
                       (Some a, Some b, Some c, Some d) \<Rightarrow>
                         string_tail ((a * 0x1000 + b * 0x100 + c * 0x10 + d) # acc) rest
                     | _ \<Rightarrow> None)
                | _ \<Rightarrow> None)
             else
               (case escape e of
                  None \<Rightarrow> None
                | Some u \<Rightarrow> string_tail (u # acc) es))
      else if c < 0x20 then None
      else string_tail (c # acc) cs)"

text \<open>
  A number token at the head of the input, and what follows it:
  \<open>-? (0 | [1-9][0-9]*) (. [0-9]+)? ([eE] [+-]? [0-9]+)?\<close>.
\<close>

definition is_digit :: "16 word \<Rightarrow> bool" where
  "is_digit c = (0x30 \<le> c \<and> c \<le> 0x39)"

definition optional_sign :: "16 word list \<Rightarrow> jsstring \<Rightarrow> jsstring \<times> jsstring" where
  "optional_sign signs s =
     (case s of [] \<Rightarrow> ([], s) | c # cs \<Rightarrow> if c \<in> set signs then ([c], cs) else ([], s))"

definition digits1 :: "jsstring \<Rightarrow> (jsstring \<times> jsstring) option" where
  "digits1 s =
     (if takeWhile is_digit s = [] then None else Some (takeWhile is_digit s, dropWhile is_digit s))"

definition integer_part :: "jsstring \<Rightarrow> (jsstring \<times> jsstring) option" where
  "integer_part s =
     (case s of
        [] \<Rightarrow> None
      | c # cs \<Rightarrow> if c = 0x30 then Some ([c], cs) else digits1 s)"

definition fraction_part :: "jsstring \<Rightarrow> jsstring \<times> jsstring" where
  "fraction_part s =
     (case s of
        [] \<Rightarrow> ([], s)
      | c # cs \<Rightarrow>
          if c = 0x2E then (case digits1 cs of None \<Rightarrow> ([], s) | Some (ds, r) \<Rightarrow> (c # ds, r))
          else ([], s))"

definition exponent_part :: "jsstring \<Rightarrow> jsstring \<times> jsstring" where
  "exponent_part s =
     (case s of
        [] \<Rightarrow> ([], s)
      | c # cs \<Rightarrow>
          if c \<in> set [0x65, 0x45] then
            (case digits1 (snd (optional_sign [0x2B, 0x2D] cs)) of
               None \<Rightarrow> ([], s)
             | Some (ds, r) \<Rightarrow> (c # fst (optional_sign [0x2B, 0x2D] cs) @ ds, r))
          else ([], s))"

definition number_token :: "jsstring \<Rightarrow> (jsstring \<times> jsstring) option" where
  "number_token s =
     (case integer_part (snd (optional_sign [0x2D] s)) of
        None \<Rightarrow> None
      | Some (ip, r1) \<Rightarrow>
          Some (fst (optional_sign [0x2D] s) @ ip @ fst (fraction_part r1)
                  @ fst (exponent_part (snd (fraction_part r1))),
                snd (exponent_part (snd (fraction_part r1)))))"

text \<open>
  The outcome of parsing a prefix of the input: a value and the rest, a syntax error,
  or the recursion budget used up. The parser is structurally recursive on the budget;
  \<open>JSON_parse\<close> hands it more than any input can use (\<open>parse_value_budget\<close> below).
  A duplicate member name keeps the last value, as \<open>JSON.parse\<close> does. Members
  stay in the order of the text; JavaScript enumerates integer-like names first, an
  order that cannot be observed here, where properties are only looked up by name.
\<close>

datatype 'a parsed = Parsed 'a jsstring | Malformed | Exhausted

fun parse_value :: "'n number_ops \<Rightarrow> nat \<Rightarrow> jsstring \<Rightarrow> 'n jsval parsed"
  and parse_elements :: "'n number_ops \<Rightarrow> nat \<Rightarrow> 'n jsval list \<Rightarrow> jsstring \<Rightarrow> 'n jsval parsed"
  and parse_members ::
    "'n number_ops \<Rightarrow> nat \<Rightarrow> (jsstring \<times> 'n jsval) list \<Rightarrow> jsstring \<Rightarrow> 'n jsval parsed" where
  "parse_value N 0 s = Exhausted"
| "parse_value N (Suc k) s =
     (case skip_ws s of
        [] \<Rightarrow> Malformed
      | c # cs \<Rightarrow>
          if c = 0x7B then
            (case skip_ws cs of
               [] \<Rightarrow> Malformed
             | d # ds \<Rightarrow> if d = 0x7D then Parsed (JObj []) ds else parse_members N k [] cs)
          else if c = 0x5B then
            (case skip_ws cs of
               [] \<Rightarrow> Malformed
             | d # ds \<Rightarrow> if d = 0x5D then Parsed (JArr []) ds else parse_elements N k [] cs)
          else if c = 0x22 then
            (case string_tail [] cs of
               None \<Rightarrow> Malformed
             | Some (str, rest) \<Rightarrow> Parsed (JStr str) rest)
          else if take 4 (c # cs) = ascii ''true'' then Parsed (JBool True) (drop 3 cs)
          else if take 5 (c # cs) = ascii ''false'' then Parsed (JBool False) (drop 4 cs)
          else if take 4 (c # cs) = ascii ''null'' then Parsed JNull (drop 3 cs)
          else
            (case number_token (c # cs) of
               None \<Rightarrow> Malformed
             | Some (tok, rest) \<Rightarrow> Parsed (JNum (num_of_token N tok)) rest))"
| "parse_elements N 0 acc s = Exhausted"
| "parse_elements N (Suc k) acc s =
     (case parse_value N k s of
        Malformed \<Rightarrow> Malformed
      | Exhausted \<Rightarrow> Exhausted
      | Parsed v rest \<Rightarrow>
          (case skip_ws rest of
             [] \<Rightarrow> Malformed
           | c # cs \<Rightarrow>
               if c = 0x2C then parse_elements N k (acc @ [v]) cs
               else if c = 0x5D then Parsed (JArr (acc @ [v])) cs
               else Malformed))"
| "parse_members N 0 acc s = Exhausted"
| "parse_members N (Suc k) acc s =
     (case skip_ws s of
        [] \<Rightarrow> Malformed
      | q # cs \<Rightarrow>
          if q = 0x22 then
            (case string_tail [] cs of
               None \<Rightarrow> Malformed
             | Some (name, r1) \<Rightarrow>
                 (case skip_ws r1 of
                    [] \<Rightarrow> Malformed
                  | colon # r2 \<Rightarrow>
                      if colon = 0x3A then
                        (case parse_value N k r2 of
                           Malformed \<Rightarrow> Malformed
                         | Exhausted \<Rightarrow> Exhausted
                         | Parsed v r3 \<Rightarrow>
                             (case skip_ws r3 of
                                [] \<Rightarrow> Malformed
                              | c # r4 \<Rightarrow>
                                  if c = 0x2C then parse_members N k (AList.update name v acc) r4
                                  else if c = 0x7D then Parsed (JObj (AList.update name v acc)) r4
                                  else Malformed))
                      else Malformed))
          else Malformed)"

definition syntax_error :: js_error where
  "syntax_error = JsError SyntaxError (ascii ''Unexpected token in JSON'')"

definition JSON_parse :: "'n number_ops \<Rightarrow> jsstring \<Rightarrow> js_error + 'n jsval" where
  "JSON_parse N s =
     (case parse_value N (2 * length s + 1) s of
        Parsed v rest \<Rightarrow> if skip_ws rest = [] then Inr v else Inl syntax_error
      | Malformed \<Rightarrow> Inl syntax_error
      | Exhausted \<Rightarrow> Inl syntax_error)"

section \<open>The calling side: \<open>GeminiService\<close> of \<open>geminiService.ts\<close>\<close>

text \<open>
  \<open>AnalysisResult\<close> of \<open>types.ts\<close>. The interface types the fields as strings and a
  string array; at run time they hold whatever the expressions of \<open>requestBackend\<close>
  evaluate to, so they are values here, and a field that is not set is \<open>undefined\<close>.
\<close>

record 'n AnalysisResult =
  summary :: "'n jsval"
  keyPoints :: "'n jsval"
  conclusion :: "'n jsval"
  detailedAnalysis :: "'n jsval"
  sources :: "'n jsval"

text \<open>
  The literals of \<open>geminiService.ts\<close>, as code units. In order: the three strings of
  the quota result (lines 29, 27, 31), the prefix of an error summary (lines 39, 74), the
  prefix of the fallback error message (line 37), the conclusion of an error result
  (lines 41, 76), the default summary (line 54), the conclusion of a plain-text result
  (line 67), and the instructions of lines 88, 95, 110 and 114.
\<close>

definition quota_summary :: jsstring where
  "quota_summary = [0x9519, 0x8BEF] @ ascii '': API '' @ [0x989D, 0x5EA6, 0x8D85, 0x9650]"

definition quota_default_message :: jsstring where
  "quota_default_message =
     ascii ''Google Gemini API '' @
     [0x8C03, 0x7528, 0x989D, 0x5EA6, 0x5DF2, 0x8D85, 0x9650, 0xFF0C, 0x8BF7, 0x7A0D, 0x540E,
      0x518D, 0x8BD5, 0x3002]"

definition quota_conclusion :: jsstring where
  "quota_conclusion = [0x8BF7, 0x6C42, 0x5931, 0x8D25, 0xFF08, 0x989D, 0x5EA6, 0x8D85, 0x9650, 0xFF09]"

definition error_prefix :: jsstring where
  "error_prefix = [0x9519, 0x8BEF] @ ascii '': ''"

definition request_failed_prefix :: jsstring where
  "request_failed_prefix = [0x8BF7, 0x6C42, 0x5931, 0x8D25] @ ascii '': ''"

definition request_failed :: jsstring where
  "request_failed = [0x8BF7, 0x6C42, 0x5931, 0x8D25]"

definition analysis_done :: jsstring where
  "analysis_done = [0x5206, 0x6790, 0x5B8C, 0x6210]"

definition parse_done :: jsstring where
  "parse_done = [0x89E3, 0x6790, 0x5B8C, 0x6210]"

definition image_instruction :: jsstring where
  "image_instruction = [0x8BF7, 0x5206, 0x6790, 0x8FD9, 0x5F20, 0x56FE, 0x7247, 0x7684, 0x5185, 0x5BB9]"

definition document_instruction :: jsstring where
  "document_instruction = [0x8BF7, 0x5206, 0x6790, 0x8FD9, 0x4EFD, 0x6587, 0x6863, 0x7684, 0x5185, 0x5BB9]"

definition web_instruction :: jsstring where
  "web_instruction = [0x8BF7, 0x5206, 0x6790, 0x6B64, 0x7F51, 0x9875, 0x5185, 0x5BB9, 0xFF1A]"

definition video_instruction :: jsstring where
  "video_instruction = [0x8BF7, 0x5206, 0x6790, 0x6B64, 0x89C6, 0x9891, 0x5185, 0x5BB9, 0xFF1A]"

text \<open>Lines 24-44: the result for a response that is not \<open>ok\<close>.\<close>

definition error_result ::
  "'n number_ops \<Rightarrow> 'n fetch_response \<Rightarrow> 'n jsval \<Rightarrow> js_error + 'n AnalysisResult" where
  "error_result N response data =
     and_then (if status response = 429 then Inr True
               else and_then (field data (ascii ''error''))
                      (\<lambda>e. Inr (e = JStr (ascii ''RATE_LIMIT'')))) (\<lambda>limited.
       if limited then
         and_then (field data (ascii ''message'')) (\<lambda>m.
           Inr \<lparr>summary = JStr quota_summary,
                keyPoints = JArr [js_or N m (JStr quota_default_message)],
                conclusion = JStr quota_conclusion,
                detailedAnalysis = js_or N m (JStr quota_default_message),
                sources = JUndefined\<rparr>)
       else
         and_then (field data (ascii ''error'')) (\<lambda>e.
         and_then (if to_boolean N (opt_field e (ascii ''message'')) then Inr (opt_field e (ascii ''message''))
                   else field data (ascii ''message'')) (\<lambda>m.
         and_then (to_string N (js_or N m (JStr (request_failed_prefix @ decimal (status response))))) (\<lambda>shown.
           Inr \<lparr>summary = JStr (error_prefix @ shown),
                keyPoints = JArr [],
                conclusion = JStr request_failed,
                detailedAnalysis = js_or N m (JStr (request_failed_prefix @ decimal (status response))),
                sources = JUndefined\<rparr>))))"

text \<open>Line 47: \<open>data.candidates?.[0]?.content?.parts?.[0]?.text || ""\<close>.\<close>

definition extract_text :: "'n number_ops \<Rightarrow> 'n jsval \<Rightarrow> js_error + 'n jsval" where
  "extract_text N data =
     and_then (field data (ascii ''candidates'')) (\<lambda>candidates.
       Inr (js_or N
              (opt_field (opt_index (opt_field (opt_field (opt_index candidates 0) (ascii ''content''))
                                               (ascii ''parts'')) 0) (ascii ''text''))
              (JStr [])))"

text \<open>
  Lines 51-59, the body of the inner \<open>try\<close>: the structured result if the \<open>if\<close> is
  entered, nothing if it is not, or the exception thrown on the way.
\<close>

definition structured_result ::
  "'n number_ops \<Rightarrow> 'n jsval \<Rightarrow> js_error + 'n AnalysisResult option" where
  "structured_result N aiResponse =
     and_then (js_includes aiResponse (ascii ''{'')) (\<lambda>found.
       if found then
         and_then (js_strip_fences aiResponse) (\<lambda>stripped.
         and_then (JSON_parse N (trim stripped)) (\<lambda>parsed.
         and_then (field parsed (ascii ''summary'')) (\<lambda>s.
         and_then (field parsed (ascii ''keyPoints'')) (\<lambda>k.
         and_then (field parsed (ascii ''conclusion'')) (\<lambda>c.
         and_then (field parsed (ascii ''detailedAnalysis'')) (\<lambda>d.
           Inr (Some \<lparr>summary = js_or N s (JStr analysis_done),
                      keyPoints = js_or N k (JArr []),
                      conclusion = js_or N c (JStr []),
                      detailedAnalysis = js_or N d aiResponse,
                      sources = JUndefined\<rparr>)))))))
       else Inr None)"

text \<open>Lines 64-69: the plain-text result.\<close>

definition plain_result :: "'n jsval \<Rightarrow> js_error + 'n AnalysisResult" where
  "plain_result aiResponse =
     and_then (js_substring aiResponse 0 100) (\<lambda>start.
       Inr \<lparr>summary = JStr (start @ ascii ''...''),
            keyPoints = JArr [aiResponse],
            conclusion = JStr parse_done,
            detailedAnalysis = aiResponse,
            sources = JUndefined\<rparr>)"

text \<open>Lines 46-69; the inner \<open>catch\<close> swallows its exception and falls through.\<close>

definition success_result :: "'n number_ops \<Rightarrow> 'n jsval \<Rightarrow> js_error + 'n AnalysisResult" where
  "success_result N data =
     and_then (extract_text N data) (\<lambda>aiResponse.
       case structured_result N aiResponse of
         Inr (Some result) \<Rightarrow> Inr result
       | Inr None \<Rightarrow> plain_result aiResponse
       | Inl e \<Rightarrow> plain_result aiResponse)"

text \<open>Lines 24-69: the Result Normalizer, from the response and its parsed body.\<close>

definition normalize ::
  "'n number_ops \<Rightarrow> 'n fetch_response \<Rightarrow> 'n jsval \<Rightarrow> js_error + 'n AnalysisResult" where
  "normalize N response data =
     (if ok response then success_result N data else error_result N response data)"

text \<open>Lines 14-20: the arguments of \<open>fetch\<close>.\<close>

definition api_call :: "'n jsval \<Rightarrow> 'n fetch_request" where
  "api_call payload =
     \<lparr>rq_url = ascii ''/api/gemini'',
      rq_method = ascii ''POST'',
      rq_headers = [(ascii ''Content-Type'', ascii ''application/json'')],
      rq_body = payload,
      rq_agent = None\<rparr>"

text \<open>Lines 14-69: the outer \<open>try\<close> block.\<close>

definition requestBackend_try ::
  "'n number_ops \<Rightarrow> 'n fetch \<Rightarrow> 'n jsval \<Rightarrow> js_error + 'n AnalysisResult" where
  "requestBackend_try N fetch payload =
     and_then (fetch (api_call payload)) (\<lambda>response.
     and_then (json response) (\<lambda>data. normalize N response data))"

text \<open>
  \<open>requestBackend\<close>, lines 12-80: how its promise settles, \<open>Inr\<close> for a result it
  resolves to and \<open>Inl\<close> for an exception it rejects with.
\<close>

definition requestBackend ::
  "'n number_ops \<Rightarrow> 'n fetch \<Rightarrow> 'n jsval \<Rightarrow> js_error + 'n AnalysisResult" where
  "requestBackend N fetch payload =
     (case requestBackend_try N fetch payload of
        Inr result \<Rightarrow> Inr result
      | Inl error \<Rightarrow>
          Inr \<lparr>summary = JStr (error_prefix @ message error),
               keyPoints = JArr [],
               conclusion = JStr request_failed,
               detailedAnalysis = JStr (message error),
               sources = JUndefined\<rparr>)"

text \<open>Lines 82-115: the seven operations. \<open>strip_prefix\<close> is \<open>base64.split(',')[1] || base64\<close>.\<close>

definition strip_prefix :: "'n number_ops \<Rightarrow> jsstring \<Rightarrow> 'n jsval" where
  "strip_prefix N base64 = js_or N (opt_index (JArr (map JStr (split_at 0x2C base64))) 1) (JStr base64)"

definition analyzeText :: "'n number_ops \<Rightarrow> 'n fetch \<Rightarrow> jsstring \<Rightarrow> js_error + 'n AnalysisResult" where
  "analyzeText N fetch text = requestBackend N fetch (JObj [(ascii ''text'', JStr text)])"

definition analyzeImage :: "'n number_ops \<Rightarrow> 'n fetch \<Rightarrow> jsstring \<Rightarrow> js_error + 'n AnalysisResult" where
  "analyzeImage N fetch base64 =
     requestBackend N fetch
       (JObj [(ascii ''text'', JStr image_instruction), (ascii ''image'', strip_prefix N base64)])"

definition analyzeDocument ::
  "'n number_ops \<Rightarrow> 'n fetch \<Rightarrow> jsstring \<Rightarrow> jsstring \<Rightarrow> js_error + 'n AnalysisResult" where
  "analyzeDocument N fetch base64 mimeType =
     requestBackend N fetch
       (JObj [(ascii ''text'', JStr document_instruction),
              (ascii ''file'', JObj [(ascii ''base64'', strip_prefix N base64),
                                     (ascii ''mimeType'', JStr mimeType)])])"

definition analyzeAudioFile ::
  "'n number_ops \<Rightarrow> 'n fetch \<Rightarrow> jsstring \<Rightarrow> jsstring \<Rightarrow> js_error + 'n AnalysisResult" where
  "analyzeAudioFile N fetch base64 mimeType = analyzeDocument N fetch base64 mimeType"

definition analyzeVideoFile ::
  "'n number_ops \<Rightarrow> 'n fetch \<Rightarrow> jsstring \<Rightarrow> jsstring \<Rightarrow> js_error + 'n AnalysisResult" where
  "analyzeVideoFile N fetch base64 mimeType = analyzeDocument N fetch base64 mimeType"

definition analyzeWebUrl :: "'n number_ops \<Rightarrow> 'n fetch \<Rightarrow> jsstring \<Rightarrow> js_error + 'n AnalysisResult" where
  "analyzeWebUrl N fetch url = requestBackend N fetch (JObj [(ascii ''text'', JStr (web_instruction @ url))])"

definition analyzeVideoUrl :: "'n number_ops \<Rightarrow> 'n fetch \<Rightarrow> jsstring \<Rightarrow> js_error + 'n AnalysisResult" where
  "analyzeVideoUrl N fetch url = requestBackend N fetch (JObj [(ascii ''text'', JStr (video_instruction @ url))])"

section \<open>Sample inputs, and the notions the statements use\<close>

text \<open>
  Stand-ins for the environment, used where a statement is evaluated on a concrete
  input: a \<open>fetch\<close> that resolves to a given response whatever it is asked, and a proxy
  agent that always loads.
\<close>

definition answering :: "'n fetch_response \<Rightarrow> 'n fetch" where
  "answering response rq = Inr response"

definition agent_ok :: agent_loader where
  "agent_ok proxy = Inr ()"

definition production :: environment where
  "production = \<lparr>GOOGLE_API_KEY = Some (ascii ''key''), NODE_ENV = Some (ascii ''production''), HTTP_PROXY = None\<rparr>"

text \<open>
  The success body of the upstream service around one text: \<open>{candidates: [{content:
  {parts: [{text}]}}]}\<close>; and the two texts of the example, the JSON object alone and
  behind the words \<open>Result:\<close>.
\<close>

definition success_envelope :: "jsstring \<Rightarrow> 'n jsval" where
  "success_envelope text =
     JObj [(ascii ''candidates'',
            JArr [JObj [(ascii ''content'',
                         JObj [(ascii ''parts'', JArr [JObj [(ascii ''text'', JStr text)]])])]])]"

definition bare_json :: jsstring where
  "bare_json = ascii ''{\"summary\":\"S\",\"keyPoints\":[\"a\"],\"conclusion\":\"C\"}''"

definition prefixed_json :: jsstring where
  "prefixed_json = ascii ''Result: '' @ bare_json"

text \<open>The call the gateway makes for the body \<open>{text: "hi"}\<close> in \<open>production\<close>.\<close>

definition sample_call :: "'n fetch_request" where
  "sample_call =
     \<lparr>rq_url = API_URL @ ascii ''?key=key'',
      rq_method = ascii ''POST'',
      rq_headers = [(ascii ''Content-Type'', ascii ''application/json'')],
      rq_body = JObj [(ascii ''contents'',
                       JArr [JObj [(ascii ''parts'', JArr [JObj [(ascii ''text'', JStr (ascii ''hi''))]])]])],
      rq_agent = None\<rparr>"

text \<open>A \<open>fetch\<close> that rejects with a given error whatever it is asked.\<close>

definition failing :: "js_error \<Rightarrow> 'n fetch" where
  "failing error rq = Inl error"

text \<open>
  The seven operations on an argument \<open>a\<close> (a text, base64 data or a URL) and a MIME
  type \<open>m\<close>, each beside the payload that lines 82-115 give it.
\<close>

definition adapter_calls ::
  "'n number_ops \<Rightarrow> 'n fetch \<Rightarrow> jsstring \<Rightarrow> jsstring \<Rightarrow> ((js_error + 'n AnalysisResult) \<times> 'n jsval) list" where
  "adapter_calls N fetch a m =
     [(analyzeText N fetch a, JObj [(ascii ''text'', JStr a)]),
      (analyzeImage N fetch a,
         JObj [(ascii ''text'', JStr image_instruction), (ascii ''image'', strip_prefix N a)]),
      (analyzeDocument N fetch a m,
         JObj [(ascii ''text'', JStr document_instruction),
               (ascii ''file'', JObj [(ascii ''base64'', strip_prefix N a), (ascii ''mimeType'', JStr m)])]),
      (analyzeAudioFile N fetch a m,
         JObj [(ascii ''text'', JStr document_instruction),
               (ascii ''file'', JObj [(ascii ''base64'', strip_prefix N a), (ascii ''mimeType'', JStr m)])]),
      (analyzeVideoFile N fetch a m,
         JObj [(ascii ''text'', JStr document_instruction),
               (ascii ''file'', JObj [(ascii ''base64'', strip_prefix N a), (ascii ''mimeType'', JStr m)])]),
      (analyzeWebUrl N fetch a, JObj [(ascii ''text'', JStr (web_instruction @ a))]),
      (analyzeVideoUrl N fetch a, JObj [(ascii ''text'', JStr (video_instruction @ a))])]"

text \<open>
  The error-shaped result: the summary is the prefix of lines 39 and 74 followed by the
  message as text, there are no key points, the conclusion is the marker of lines 41 and
  76, and \<open>detailedAnalysis\<close> is the message as it was found.
\<close>

definition error_shaped :: "jsstring \<Rightarrow> 'n jsval \<Rightarrow> 'n AnalysisResult" where
  "error_shaped shown detail =
     \<lparr>summary = JStr (error_prefix @ shown), keyPoints = JArr [], conclusion = JStr request_failed,
      detailedAnalysis = detail, sources = JUndefined\<rparr>"

text \<open>
  A populated result: none of the three required fields is \<open>undefined\<close>; more
  precisely, \<open>summary\<close> and \<open>keyPoints\<close> are truthy (so not \<open>null\<close>, \<open>false\<close> or
  empty either), and \<open>conclusion\<close> is truthy or the empty string.
\<close>

definition fully_populated :: "'n number_ops \<Rightarrow> 'n AnalysisResult \<Rightarrow> bool" where
  "fully_populated N r =
     (summary r \<noteq> JUndefined \<and> keyPoints r \<noteq> JUndefined \<and> conclusion r \<noteq> JUndefined \<and>
      to_boolean N (summary r) \<and> to_boolean N (keyPoints r) \<and>
      (to_boolean N (conclusion r) \<or> conclusion r = JStr []))"

section \<open>Properties of values and strings\<close>

lemma field_truthy: "to_boolean N v \<Longrightarrow> field v k = Inr (opt_field v k)"
  by (cases v) (simp_all add: opt_field_def)

lemma field_defined: "v \<noteq> JUndefined \<Longrightarrow> v \<noteq> JNull \<Longrightarrow> field v k = Inr (opt_field v k)"
  by (cases v) (simp_all add: opt_field_def)

lemma opt_field_falsy: "\<not> to_boolean N v \<Longrightarrow> opt_field v k = JUndefined"
  by (cases v) (simp_all add: opt_field_def)

lemma js_or_defined:
  "b \<noteq> JUndefined \<Longrightarrow> b \<noteq> JNull \<Longrightarrow> js_or N a b \<noteq> JUndefined \<and> js_or N a b \<noteq> JNull"
  by (cases a) (simp_all add: js_or_def)

lemma split_at_no_sep: "sep \<notin> set s \<Longrightarrow> split_at sep s = [s]"
  by (induction s) auto

lemma split_at_append: "sep \<notin> set h \<Longrightarrow> split_at sep (h @ sep # d) = h # split_at sep d"
proof (induction h)
  case Nil
  show ?case by (cases d) (auto split: list.splits)
next
  case (Cons c h)
  then show ?case by auto
qed

lemma strip_prefix_data_url:
  assumes "0x2C \<notin> set header" and "0x2C \<notin> set d" and "d \<noteq> []"
  shows "strip_prefix N (header @ 0x2C # d) = JStr d"
  using assms by (simp add: strip_prefix_def split_at_append split_at_no_sep opt_index_def js_or_def)

lemma strip_prefix_bare: "0x2C \<notin> set b \<Longrightarrow> strip_prefix N b = JStr b"
  by (simp add: strip_prefix_def split_at_no_sep opt_index_def js_or_def)

text \<open>Unfolding the parser on a numeral budget.\<close>

lemmas parse_numeral =
  parse_value.simps(2) [of _ "pred_numeral n" for n, folded numeral_eq_Suc]
  parse_elements.simps(2) [of _ "pred_numeral n" for n, folded numeral_eq_Suc]
  parse_members.simps(2) [of _ "pred_numeral n" for n, folded numeral_eq_Suc]

subsection \<open>The parser never runs out of budget\<close>

text \<open>Each lexer returns no more than it was given, and so does each parser.\<close>

lemma skip_ws_Cons: "skip_ws s = c # cs \<Longrightarrow> length cs < length s"
proof -
  assume a: "skip_ws s = c # cs"
  have "length (skip_ws s) \<le> length s"
    by (simp add: skip_ws_def length_dropWhile_le)
  with a show ?thesis by simp
qed

lemma string_tail_shrinks: "string_tail acc s = Some (str, rest) \<Longrightarrow> length rest < length s"
proof (induction acc s arbitrary: str rest rule: string_tail.induct)
  case (1 acc)
  then show ?case by simp
next
  case (2 acc c cs)
  then show ?case
    by (auto split: if_splits list.splits option.splits prod.splits) fastforce+
qed

lemma optional_sign_shrinks: "length (snd (optional_sign signs s)) \<le> length s"
  by (simp add: optional_sign_def split: list.split)

lemma digits1_shrinks: "digits1 s = Some (ds, r) \<Longrightarrow> length r \<le> length s"
  by (auto simp: digits1_def length_dropWhile_le split: if_splits)

lemma integer_part_shrinks: "integer_part s = Some (ip, r) \<Longrightarrow> length r \<le> length s"
  by (auto simp: integer_part_def split: list.splits if_splits dest: digits1_shrinks)

lemma fraction_part_shrinks: "length (snd (fraction_part s)) \<le> length s"
  by (auto simp: fraction_part_def split: list.splits option.splits dest: digits1_shrinks)

lemma exponent_part_shrinks: "length (snd (exponent_part s)) \<le> length s"
proof (cases s)
  case Nil
  then show ?thesis by (simp add: exponent_part_def)
next
  case (Cons c cs)
  have "length (snd (optional_sign [0x2B, 0x2D] cs)) \<le> length cs"
    by (rule optional_sign_shrinks)
  then show ?thesis
    using Cons
    by (auto simp: exponent_part_def split: option.splits dest!: digits1_shrinks)
qed

lemma number_token_shrinks: "number_token s = Some (tok, rest) \<Longrightarrow> length rest \<le> length s"
proof -
  assume a: "number_token s = Some (tok, rest)"
  then obtain ip r1 where ip: "integer_part (snd (optional_sign [0x2D] s)) = Some (ip, r1)"
    and rest: "rest = snd (exponent_part (snd (fraction_part r1)))"
    by (auto simp: number_token_def split: option.splits)
  have "length rest \<le> length (snd (fraction_part r1))"
    unfolding rest by (rule exponent_part_shrinks)
  also have "\<dots> \<le> length r1"
    by (rule fraction_part_shrinks)
  also have "\<dots> \<le> length (snd (optional_sign [0x2D] s))"
    using ip by (rule integer_part_shrinks)
  also have "\<dots> \<le> length s"
    by (rule optional_sign_shrinks)
  finally show ?thesis .
qed

lemma parse_shrinks:
  "(\<forall>s v rest. parse_value N k s = Parsed v rest \<longrightarrow> length rest \<le> length s) \<and>
   (\<forall>acc s v rest. parse_elements N k acc s = Parsed v rest \<longrightarrow> length rest \<le> length s) \<and>
   (\<forall>acc s v rest. parse_members N k acc s = Parsed v rest \<longrightarrow> length rest \<le> length s)"
proof (induction k)
  case 0
  show ?case by simp
next
  case (Suc k)
  then have V: "\<And>s v rest. parse_value N k s = Parsed v rest \<Longrightarrow> length rest \<le> length s"
    and E: "\<And>acc s v rest. parse_elements N k acc s = Parsed v rest \<Longrightarrow> length rest \<le> length s"
    and M: "\<And>acc s v rest. parse_members N k acc s = Parsed v rest \<Longrightarrow> length rest \<le> length s"
    by blast+
  have "length rest \<le> length s" if "parse_value N (Suc k) s = Parsed v rest" for s v rest
    using that
    by (auto split: list.splits if_splits option.splits prod.splits
        dest!: skip_ws_Cons string_tail_shrinks number_token_shrinks E M)
  moreover have "length rest \<le> length s" if "parse_elements N (Suc k) acc s = Parsed v rest"
    for acc s v rest
    using that
    by (auto split: list.splits if_splits parsed.splits dest!: skip_ws_Cons V E)
  moreover have "length rest \<le> length s" if "parse_members N (Suc k) acc s = Parsed v rest"
    for acc s v rest
    using that
    by (auto split: list.splits if_splits option.splits prod.splits parsed.splits
        dest!: skip_ws_Cons string_tail_shrinks V M)
  ultimately show ?case by blast
qed

text \<open>
  A budget of twice the length of the input, plus one, is never used up: each recursive
  call is made behind at least one consumed code unit.
\<close>

lemma parse_budget:
  "(\<forall>s. 2 * length s + 1 \<le> k \<longrightarrow> parse_value N k s \<noteq> Exhausted) \<and>
   (\<forall>acc s. 2 * length s + 2 \<le> k \<longrightarrow> parse_elements N k acc s \<noteq> Exhausted) \<and>
   (\<forall>acc s. 2 * length s + 1 \<le> k \<longrightarrow> parse_members N k acc s \<noteq> Exhausted)"
proof (induction k)
  case 0
  show ?case by simp
next
  case (Suc k)
  then have V: "\<And>s. 2 * length s + 1 \<le> k \<Longrightarrow> parse_value N k s \<noteq> Exhausted"
    and E: "\<And>acc s. 2 * length s + 2 \<le> k \<Longrightarrow> parse_elements N k acc s \<noteq> Exhausted"
    and M: "\<And>acc s. 2 * length s + 1 \<le> k \<Longrightarrow> parse_members N k acc s \<noteq> Exhausted"
    by blast+
  have "parse_value N (Suc k) s \<noteq> Exhausted" if "2 * length s + 1 \<le> Suc k" for s
  proof (cases "skip_ws s")
    case Nil
    then show ?thesis by simp
  next
    case (Cons c cs)
    then have "length cs < length s" by (rule skip_ws_Cons)
    with that have "2 * length cs + 2 \<le> k" by simp
    then have "parse_elements N k [] cs \<noteq> Exhausted" "parse_members N k [] cs \<noteq> Exhausted"
      by (simp_all add: E M)
    then show ?thesis
      using Cons by (simp split: list.split option.split)
  qed
  moreover have "parse_elements N (Suc k) acc s \<noteq> Exhausted" if "2 * length s + 2 \<le> Suc k" for acc s
  proof (cases "parse_value N k s")
    case (Parsed v rest)
    then have r: "length rest \<le> length s"
      using parse_shrinks [of N k] by blast
    show ?thesis
    proof (cases "skip_ws rest")
      case Nil
      then show ?thesis using Parsed by simp
    next
      case (Cons c cs)
      then have "length cs < length rest" by (rule skip_ws_Cons)
      with r that have "2 * length cs + 2 \<le> k" by simp
      then have "parse_elements N k (acc @ [v]) cs \<noteq> Exhausted" by (rule E)
      then show ?thesis using Parsed Cons by simp
    qed
  next
    case Malformed
    then show ?thesis by simp
  next
    case Exhausted
    moreover from that have "parse_value N k s \<noteq> Exhausted" by (simp add: V)
    ultimately show ?thesis by simp
  qed
  moreover have "parse_members N (Suc k) acc s \<noteq> Exhausted" if "2 * length s + 1 \<le> Suc k" for acc s
  proof -
    have "parse_members N (Suc k) acc s = Exhausted \<Longrightarrow> False"
    proof -
      assume x: "parse_members N (Suc k) acc s = Exhausted"
      then obtain q cs name r1 colon r2 where s: "skip_ws s = q # cs"
        and n: "string_tail [] cs = Some (name, r1)" and c: "skip_ws r1 = colon # r2"
        and rest: "(case parse_value N k r2 of
                           Malformed \<Rightarrow> Malformed
                         | Exhausted \<Rightarrow> Exhausted
                         | Parsed v r3 \<Rightarrow>
                             (case skip_ws r3 of
                                [] \<Rightarrow> Malformed
                              | c # r4 \<Rightarrow>
                                  if c = 0x2C then parse_members N k (AList.update name v acc) r4
                                  else if c = 0x7D then Parsed (JObj (AList.update name v acc)) r4
                                  else Malformed)) = Exhausted"
        by (auto split: list.splits if_splits option.splits prod.splits)
      have l: "length r2 + 3 \<le> length s"
        using skip_ws_Cons [OF s] string_tail_shrinks [OF n] skip_ws_Cons [OF c] by simp
      with that have "parse_value N k r2 \<noteq> Exhausted"
        by (intro V) simp
      with rest obtain v r3 c r4 where p: "parse_value N k r2 = Parsed v r3"
        and w: "skip_ws r3 = c # r4" and m: "parse_members N k (AList.update name v acc) r4 = Exhausted"
        by (auto split: parsed.splits list.splits if_splits)
      have "length r3 \<le> length r2"
        using p parse_shrinks [of N k] by blast
      with skip_ws_Cons [OF w] l that have "2 * length r4 + 1 \<le> k" by simp
      then have "parse_members N k (AList.update name v acc) r4 \<noteq> Exhausted" by (rule M)
      with m show False by simp
    qed
    then show ?thesis by blast
  qed
  ultimately show ?case by blast
qed

lemma parse_value_budget: "parse_value N (2 * length s + 1) s \<noteq> Exhausted"
  using parse_budget [of "2 * length s + 1" N] by simp

section \<open>Properties of the gateway\<close>

lemma body_rejected_eq:
  "body_rejected N b =
     Inr (\<not> (to_boolean N (opt_field b (ascii ''text'')) \<or> to_boolean N (opt_field b (ascii ''image''))
              \<or> to_boolean N (opt_field (opt_field b (ascii ''file'')) (ascii ''base64''))))"
proof (cases "to_boolean N b")
  case True
  then show ?thesis
    by (simp add: body_rejected_def and_then_def field_truthy
        opt_field_falsy [of N "opt_field b (ascii ''file'')"])
next
  case False
  then show ?thesis
    by (simp add: body_rejected_def opt_field_falsy)
qed


text \<open>The body check of line 31 never throws, so nothing escapes the handler.\<close>

lemma handler_replies: "\<exists>reply calls. handler N env load fetch req = Inr (reply, calls)"
  by (auto simp: handler_def body_rejected_eq and_then_def split: prod.split sum.split)

text \<open>
  \<^bold>\<open>Claim C6.\<close> A \<open>POST\<close> whose body is \<open>{}\<close> is answered with status 400 and error
  kind \<open>INVALID_REQUEST\<close>, and \<open>fetch\<close> is not called.
\<close>

theorem post_empty_object_rejected:
  "handler N env load fetch \<lparr>req_method = Some (ascii ''POST''), req_body = JObj []\<rparr> =
     Inr (\<lparr>res_status = 400,
           res_body = JObj [(ascii ''error'', JStr (ascii ''INVALID_REQUEST'')),
                            (ascii ''message'', JStr invalid_request_message)]\<rparr>, [])"
  by (simp add: handler_def body_rejected_def and_then_def ascii_def)

text \<open>
  \<^bold>\<open>Claim C10.\<close> The check of line 31 tests truthiness, so an empty string counts as
  absent: a \<open>POST\<close> whose body is an object in which \<open>text\<close> is \<open>""\<close> or missing,
  \<open>image\<close> is \<open>""\<close> or missing, and \<open>file\<close> is missing or an object whose \<open>base64\<close> is
  \<open>""\<close> or missing, is answered with status 400 and \<open>INVALID_REQUEST\<close>, without a call
  of \<open>fetch\<close>.
\<close>

theorem empty_strings_rejected:
  assumes "map_of kvs (ascii ''text'') = Some (JStr []) \<or> map_of kvs (ascii ''text'') = None"
    and "map_of kvs (ascii ''image'') = Some (JStr []) \<or> map_of kvs (ascii ''image'') = None"
    and "map_of kvs (ascii ''file'') = None \<or>
         (\<exists>fkvs. map_of kvs (ascii ''file'') = Some (JObj fkvs) \<and>
            (map_of fkvs (ascii ''base64'') = Some (JStr []) \<or> map_of fkvs (ascii ''base64'') = None))"
  shows "handler N env load fetch \<lparr>req_method = Some (ascii ''POST''), req_body = JObj kvs\<rparr> =
     Inr (\<lparr>res_status = 400,
           res_body = JObj [(ascii ''error'', JStr (ascii ''INVALID_REQUEST'')),
                            (ascii ''message'', JStr invalid_request_message)]\<rparr>, [])"
proof -
  have t: "\<not> to_boolean N (opt_field (JObj kvs) (ascii ''text''))"
    using assms(1) by (auto simp: opt_field_def)
  have i: "\<not> to_boolean N (opt_field (JObj kvs) (ascii ''image''))"
    using assms(2) by (auto simp: opt_field_def)
  have f: "\<not> to_boolean N (opt_field (opt_field (JObj kvs) (ascii ''file'')) (ascii ''base64''))"
    using assms(3) by (auto simp: opt_field_def)
  have "body_rejected N (JObj kvs) = Inr True"
    using t i f by (simp add: body_rejected_eq)
  moreover have "ascii ''POST'' \<noteq> ascii ''GET''"
    by (simp add: ascii_def)
  ultimately show ?thesis
    by (simp add: handler_def and_then_def)
qed

theorem empty_strings_rejected_witness:
  "handler no_numbers production agent_ok (answering \<lparr>status = 200, json = Inr (success_envelope (ascii ''hello''))\<rparr>)
     \<lparr>req_method = Some (ascii ''POST''),
      req_body = JObj [(ascii ''text'', JStr []), (ascii ''image'', JStr []),
                       (ascii ''file'', JObj [(ascii ''base64'', JStr []),
                                              (ascii ''mimeType'', JStr (ascii ''text/plain''))])]\<rparr> =
     Inr (\<lparr>res_status = 400,
           res_body = JObj [(ascii ''error'', JStr (ascii ''INVALID_REQUEST'')),
                            (ascii ''message'', JStr invalid_request_message)]\<rparr>, [])"
  using empty_strings_rejected [of
      "[(ascii ''text'', JStr []), (ascii ''image'', JStr []),
        (ascii ''file'', JObj [(ascii ''base64'', JStr []), (ascii ''mimeType'', JStr (ascii ''text/plain''))])]"
      no_numbers production agent_ok
      "answering \<lparr>status = 200, json = Inr (success_envelope (ascii ''hello''))\<rparr>"]
  by (simp add: ascii_def)




text \<open>The body of the call of \<open>fetch\<close> is \<open>{contents: [{parts}]}\<close> around these parts.\<close>

lemma upstream_request_body:
  assumes "upstream_request N env load b = Inr rq"
  shows "\<exists>parts. build_parts N b = Inr parts \<and>
           rq_body rq = JObj [(ascii ''contents'', JArr [JObj [(ascii ''parts'', JArr parts)]])]"
  using assms by (auto simp: upstream_request_def and_then_def split: sum.splits)

lemma sample_request:
  "upstream_request no_numbers production agent_ok (JObj [(ascii ''text'', JStr (ascii ''hi''))]) =
     Inr sample_call"
  by (simp add: upstream_request_def build_parts_def and_then_def proxy_agent_def production_def
      js_or_def sample_call_def) (simp add: ascii_def)

lemma sample_accepted:
  "body_rejected no_numbers (JObj [(ascii ''text'', JStr (ascii ''hi''))]) = Inr False"
  by (simp add: body_rejected_def and_then_def ascii_def)

text \<open>
  \<^bold>\<open>Claim C2\<close>, as amended. For every \<open>POST\<close> whose body passes the check of line 31
  and whose upstream call resolves with a status in 200-299 and a body that
  \<open>response.json()\<close> parses, the handler answers with status 200 and that parsed body,
  unchanged; \<open>fetch\<close> has been called once.
\<close>

theorem upstream_success_relayed:
  assumes "req_method req = Some (ascii ''POST'')"
    and "body_rejected N (req_body req) = Inr False"
    and "upstream_request N env load (req_body req) = Inr rq"
    and "fetch rq = Inr response" and "ok response" and "json response = Inr data"
  shows "handler N env load fetch req = Inr (\<lparr>res_status = 200, res_body = data\<rparr>, [rq])"
proof -
  have "ascii ''POST'' \<noteq> ascii ''GET''"
    by (simp add: ascii_def)
  then show ?thesis
    using assms by (simp add: handler_def and_then_def handler_try_def relay_def)
qed

text \<open>An upstream answer with status 201 is relayed under status 200.\<close>

theorem upstream_success_relayed_witness:
  "ok \<lparr>status = 201, json = Inr (success_envelope (ascii ''hello'') :: unit jsval)\<rparr> \<and>
   handler no_numbers production agent_ok
     (answering \<lparr>status = 201, json = Inr (success_envelope (ascii ''hello''))\<rparr>)
     \<lparr>req_method = Some (ascii ''POST''), req_body = JObj [(ascii ''text'', JStr (ascii ''hi''))]\<rparr> =
     Inr (\<lparr>res_status = 200, res_body = success_envelope (ascii ''hello'')\<rparr>, [sample_call])"
proof -
  have k: "ok \<lparr>status = 201, json = Inr (success_envelope (ascii ''hello'') :: unit jsval)\<rparr>"
    by (simp add: ok_def)
  show ?thesis
    using k upstream_success_relayed [of
        "\<lparr>req_method = Some (ascii ''POST''), req_body = JObj [(ascii ''text'', JStr (ascii ''hi''))]\<rparr>"
        no_numbers production agent_ok sample_call
        "answering \<lparr>status = 201, json = Inr (success_envelope (ascii ''hello''))\<rparr>"
        "\<lparr>status = 201, json = Inr (success_envelope (ascii ''hello''))\<rparr>"
        "success_envelope (ascii ''hello'')"]
    by (simp add: sample_accepted sample_request answering_def)
qed

text \<open>
  Claim C2 as stated fails where the upstream answers 200 with a body that is not JSON:
  \<open>response.json()\<close> throws inside the \<open>try\<close>, and the handler answers with status
  500 and \<open>INTERNAL_ERROR\<close>.
\<close>

theorem unparsable_success_counterexample:
  "handler no_numbers production agent_ok
     (answering \<lparr>status = 200, json = Inl syntax_error\<rparr>)
     \<lparr>req_method = Some (ascii ''POST''), req_body = JObj [(ascii ''text'', JStr (ascii ''hi''))]\<rparr> =
     Inr (\<lparr>res_status = 500,
           res_body = JObj [(ascii ''error'', JStr (ascii ''INTERNAL_ERROR'')),
                            (ascii ''message'', JStr (ascii ''Unexpected token in JSON''))]\<rparr>,
          [sample_call])"
proof -
  have "ascii ''POST'' \<noteq> ascii ''GET''"
    by (simp add: ascii_def)
  then show ?thesis
    by (simp add: handler_def and_then_def sample_accepted handler_try_def sample_request
        answering_def syntax_error_def js_or_def) (simp add: ascii_def)
qed

text \<open>Every reply the handler sends with status 429 is the \<open>RATE_LIMIT\<close> envelope of line 111.\<close>

lemma handler_429_body:
  assumes "handler N env load fetch req = Inr (reply, calls)" and "res_status reply = 429"
  shows "\<exists>data. res_body reply = JObj [(ascii ''error'', JStr (ascii ''RATE_LIMIT'')),
                                        (ascii ''message'', JStr rate_limit_message),
                                        (ascii ''raw'', data)]"
  using assms
  by (auto simp: handler_def handler_try_def relay_def and_then_def body_rejected_eq
      split: if_splits sum.splits prod.splits)

section \<open>Properties of the calling side\<close>

subsection \<open>How \<open>requestBackend\<close> settles\<close>

lemma requestBackend_resolves: "\<exists>r. requestBackend N fetch payload = Inr r"
  by (simp add: requestBackend_def split: sum.split)

lemma adapter_calls_requestBackend:
  "(outcome, payload) \<in> set (adapter_calls N fetch a m) \<Longrightarrow> outcome = requestBackend N fetch payload"
  by (auto simp: adapter_calls_def analyzeText_def analyzeImage_def analyzeDocument_def
      analyzeAudioFile_def analyzeVideoFile_def analyzeWebUrl_def analyzeVideoUrl_def)

lemma requestBackend_rejected:
  "fetch (api_call payload) = Inl e \<Longrightarrow>
     requestBackend N fetch payload = Inr (error_shaped (message e) (JStr (message e)))"
  by (simp add: requestBackend_def requestBackend_try_def and_then_def error_shaped_def)

lemma requestBackend_unreadable:
  "fetch (api_call payload) = Inr response \<Longrightarrow> json response = Inl e \<Longrightarrow>
     requestBackend N fetch payload = Inr (error_shaped (message e) (JStr (message e)))"
  by (simp add: requestBackend_def requestBackend_try_def and_then_def error_shaped_def)

lemma requestBackend_exception:
  "fetch (api_call payload) = Inr response \<Longrightarrow> json response = Inr data \<Longrightarrow>
   normalize N response data = Inl e \<Longrightarrow>
     requestBackend N fetch payload = Inr (error_shaped (message e) (JStr (message e)))"
  by (simp add: requestBackend_def requestBackend_try_def and_then_def error_shaped_def)

lemma requestBackend_normalized:
  "fetch (api_call payload) = Inr response \<Longrightarrow> json response = Inr data \<Longrightarrow>
   normalize N response data = Inr r \<Longrightarrow> requestBackend N fetch payload = Inr r"
  by (simp add: requestBackend_def requestBackend_try_def and_then_def)

lemma normalize_quota:
  assumes "\<not> ok response"
    and "status response = 429 \<or> opt_field data (ascii ''error'') = JStr (ascii ''RATE_LIMIT'')"
    and "data \<noteq> JUndefined" and "data \<noteq> JNull"
  shows "normalize N response data =
     Inr \<lparr>summary = JStr quota_summary,
          keyPoints = JArr [js_or N (opt_field data (ascii ''message'')) (JStr quota_default_message)],
          conclusion = JStr quota_conclusion,
          detailedAnalysis = js_or N (opt_field data (ascii ''message'')) (JStr quota_default_message),
          sources = JUndefined\<rparr>"
  using assms by (auto simp: normalize_def error_result_def and_then_def field_defined)

lemma normalize_other_error:
  assumes "\<not> ok response" and "status response \<noteq> 429"
    and "data \<noteq> JUndefined" and "data \<noteq> JNull"
    and "opt_field data (ascii ''error'') \<noteq> JStr (ascii ''RATE_LIMIT'')"
    and "to_string N (js_or N (opt_field (opt_field data (ascii ''error'')) (ascii ''message''))
                        (js_or N (opt_field data (ascii ''message''))
                           (JStr (request_failed_prefix @ decimal (status response))))) = Inr shown"
  shows "normalize N response data =
     Inr (error_shaped shown
            (js_or N (opt_field (opt_field data (ascii ''error'')) (ascii ''message''))
               (js_or N (opt_field data (ascii ''message''))
                  (JStr (request_failed_prefix @ decimal (status response))))))"
  using assms
  by (auto simp: normalize_def error_result_def and_then_def field_defined error_shaped_def js_or_def)

lemma normalize_structured:
  assumes "ok response" and "extract_text N data = Inr (JStr text)"
    and "contains (ascii ''{'') text"
    and "JSON_parse N (trim (strip_fences text)) = Inr parsed"
    and "parsed \<noteq> JUndefined" and "parsed \<noteq> JNull"
  shows "normalize N response data =
     Inr \<lparr>summary = js_or N (opt_field parsed (ascii ''summary'')) (JStr analysis_done),
          keyPoints = js_or N (opt_field parsed (ascii ''keyPoints'')) (JArr []),
          conclusion = js_or N (opt_field parsed (ascii ''conclusion'')) (JStr []),
          detailedAnalysis = js_or N (opt_field parsed (ascii ''detailedAnalysis'')) (JStr text),
          sources = JUndefined\<rparr>"
  using assms
  by (simp add: normalize_def success_result_def structured_result_def and_then_def field_defined)

lemma requestBackend_structured:
  assumes "requestBackend N fetch payload = Inr r"
    and "fetch (api_call payload) = Inr response" and "ok response" and "json response = Inr data"
    and "extract_text N data = Inr (JStr txt)" and "contains (ascii ''{'') txt"
    and "JSON_parse N (trim (strip_fences txt)) = Inr v"
    and "v \<noteq> JUndefined" and "v \<noteq> JNull"
  shows "r = \<lparr>summary = js_or N (opt_field v (ascii ''summary'')) (JStr analysis_done),
              keyPoints = js_or N (opt_field v (ascii ''keyPoints'')) (JArr []),
              conclusion = js_or N (opt_field v (ascii ''conclusion'')) (JStr []),
              detailedAnalysis = js_or N (opt_field v (ascii ''detailedAnalysis'')) (JStr txt),
              sources = JUndefined\<rparr>"
proof -
  have "normalize N response data =
     Inr \<lparr>summary = js_or N (opt_field v (ascii ''summary'')) (JStr analysis_done),
          keyPoints = js_or N (opt_field v (ascii ''keyPoints'')) (JArr []),
          conclusion = js_or N (opt_field v (ascii ''conclusion'')) (JStr []),
          detailedAnalysis = js_or N (opt_field v (ascii ''detailedAnalysis'')) (JStr txt),
          sources = JUndefined\<rparr>"
    using assms(3,5-9) by (rule normalize_structured)
  with assms(1,2,4) show ?thesis
    by (simp add: requestBackend_normalized [of fetch payload response data])
qed

lemma js_or_truthy: "to_boolean N b \<Longrightarrow> to_boolean N (js_or N a b)"
  by (simp add: js_or_def)

lemma literals_nonempty:
  "quota_summary \<noteq> []" "analysis_done \<noteq> []" "error_prefix \<noteq> []"
  by (simp_all add: quota_summary_def analysis_done_def error_prefix_def ascii_def)

lemma error_result_populated: "error_result N response data = Inr r \<Longrightarrow> fully_populated N r"
  by (auto simp: error_result_def and_then_def fully_populated_def literals_nonempty
      split: sum.splits if_splits)

lemma structured_result_populated: "structured_result N a = Inr (Some r) \<Longrightarrow> fully_populated N r"
  by (auto simp: structured_result_def and_then_def fully_populated_def js_or_defined js_or_truthy
      literals_nonempty js_or_def [of N _ "JStr []"] split: sum.splits if_splits)

lemma plain_result_populated: "plain_result a = Inr r \<Longrightarrow> fully_populated N r"
  by (auto simp: plain_result_def and_then_def fully_populated_def ascii_def split: sum.splits)

lemma success_result_populated: "success_result N data = Inr r \<Longrightarrow> fully_populated N r"
  by (auto simp: success_result_def and_then_def split: sum.splits option.splits
      dest: structured_result_populated plain_result_populated)

lemma normalize_populated: "normalize N response data = Inr r \<Longrightarrow> fully_populated N r"
  by (auto simp: normalize_def split: if_splits dest: success_result_populated error_result_populated)

lemma requestBackend_populated: "requestBackend N fetch payload = Inr r \<Longrightarrow> fully_populated N r"
  by (auto simp: requestBackend_def requestBackend_try_def and_then_def fully_populated_def
      literals_nonempty split: sum.splits dest: normalize_populated)

lemma extract_envelope: "t \<noteq> [] \<Longrightarrow> extract_text N (success_envelope t) = Inr (JStr t)"
  by (simp add: extract_text_def success_envelope_def and_then_def opt_field_def opt_index_def
      js_or_def ascii_def)

lemma sample_plain:
  "analyzeText no_numbers
     (answering \<lparr>status = 200, json = Inr (success_envelope (ascii ''plain answer''))\<rparr>) (ascii ''hi'') =
   Inr \<lparr>summary = JStr (ascii ''plain answer...''), keyPoints = JArr [JStr (ascii ''plain answer'')],
        conclusion = JStr parse_done, detailedAnalysis = JStr (ascii ''plain answer''),
        sources = JUndefined\<rparr>"
proof -
  have "extract_text no_numbers (success_envelope (ascii ''plain answer'')) =
          Inr (JStr (ascii ''plain answer''))"
    by (rule extract_envelope) (simp add: ascii_def)
  then show ?thesis
    by (simp add: analyzeText_def requestBackend_def requestBackend_try_def answering_def and_then_def
        api_call_def normalize_def ok_def success_result_def structured_result_def plain_result_def)
       (simp add: ascii_def)
qed

lemma parse_empty_object: "JSON_parse N (trim (strip_fences (ascii ''{}''))) = Inr (JObj [])"
proof -
  have "trim (strip_fences (ascii ''{}'')) = ascii ''{}''"
    by (simp add: ascii_def fence_def trim_def is_js_whitespace_def)
  then show ?thesis
    by (simp add: JSON_parse_def ascii_def parse_numeral skip_ws_def)
qed

subsection \<open>No operation throws: every failure becomes a result\<close>

text \<open>
  \<^bold>\<open>Claim C5.\<close> Each of the seven operations resolves to an \<open>AnalysisResult\<close>,
  whatever \<open>fetch\<close> does, and every failure ends in an error-shaped result:
  a rejected \<open>fetch\<close> (network), a body that \<open>response.json()\<close> cannot read, and an
  exception anywhere in the normalization give the result built from the exception's
  message (lines 71-79); a response that is not \<open>ok\<close> (validation or upstream failure
  reported by the gateway) gives the result built from the message of line 37 (lines
  38-43), or the quota result of lines 28-33 when it is a rate limit.
\<close>

theorem adapter_never_throws:
  assumes "(outcome, payload) \<in> set (adapter_calls N fetch a m)"
  shows "(\<exists>r. outcome = Inr r)
    \<and> (\<forall>e. fetch (api_call payload) = Inl e \<longrightarrow>
           outcome = Inr (error_shaped (message e) (JStr (message e))))
    \<and> (\<forall>response e. fetch (api_call payload) = Inr response \<and> json response = Inl e \<longrightarrow>
           outcome = Inr (error_shaped (message e) (JStr (message e))))
    \<and> (\<forall>response data e. fetch (api_call payload) = Inr response \<and> json response = Inr data \<and>
           normalize N response data = Inl e \<longrightarrow>
           outcome = Inr (error_shaped (message e) (JStr (message e))))
    \<and> (\<forall>response data shown. fetch (api_call payload) = Inr response \<and> json response = Inr data \<and>
           \<not> ok response \<and> status response \<noteq> 429 \<and> data \<noteq> JUndefined \<and> data \<noteq> JNull \<and>
           opt_field data (ascii ''error'') \<noteq> JStr (ascii ''RATE_LIMIT'') \<and>
           to_string N (js_or N (opt_field (opt_field data (ascii ''error'')) (ascii ''message''))
                          (js_or N (opt_field data (ascii ''message''))
                             (JStr (request_failed_prefix @ decimal (status response))))) = Inr shown \<longrightarrow>
           outcome = Inr (error_shaped shown
                            (js_or N (opt_field (opt_field data (ascii ''error'')) (ascii ''message''))
                               (js_or N (opt_field data (ascii ''message''))
                                  (JStr (request_failed_prefix @ decimal (status response)))))))
    \<and> (\<forall>response data. fetch (api_call payload) = Inr response \<and> json response = Inr data \<and>
           \<not> ok response \<and> data \<noteq> JUndefined \<and> data \<noteq> JNull \<and>
           (status response = 429 \<or> opt_field data (ascii ''error'') = JStr (ascii ''RATE_LIMIT'')) \<longrightarrow>
           outcome =
             Inr \<lparr>summary = JStr quota_summary,
                  keyPoints = JArr [js_or N (opt_field data (ascii ''message'')) (JStr quota_default_message)],
                  conclusion = JStr quota_conclusion,
                  detailedAnalysis = js_or N (opt_field data (ascii ''message'')) (JStr quota_default_message),
                  sources = JUndefined\<rparr>)"
proof -
  have o: "outcome = requestBackend N fetch payload"
    using assms by (rule adapter_calls_requestBackend)
  have "\<exists>r. outcome = Inr r"
    unfolding o by (rule requestBackend_resolves)
  moreover have "outcome = Inr (error_shaped (message e) (JStr (message e)))"
    if "fetch (api_call payload) = Inl e" for e
    unfolding o using that by (rule requestBackend_rejected)
  moreover have "outcome = Inr (error_shaped (message e) (JStr (message e)))"
    if "fetch (api_call payload) = Inr response \<and> json response = Inl e" for response e
    unfolding o using that by (simp add: requestBackend_unreadable)
  moreover have "outcome = Inr (error_shaped (message e) (JStr (message e)))"
    if "fetch (api_call payload) = Inr response \<and> json response = Inr data \<and>
        normalize N response data = Inl e" for response data e
    unfolding o using that by (simp add: requestBackend_exception)
  moreover have "outcome = Inr (error_shaped shown
                            (js_or N (opt_field (opt_field data (ascii ''error'')) (ascii ''message''))
                               (js_or N (opt_field data (ascii ''message''))
                                  (JStr (request_failed_prefix @ decimal (status response))))))"
    if "fetch (api_call payload) = Inr response \<and> json response = Inr data \<and>
           \<not> ok response \<and> status response \<noteq> 429 \<and> data \<noteq> JUndefined \<and> data \<noteq> JNull \<and>
           opt_field data (ascii ''error'') \<noteq> JStr (ascii ''RATE_LIMIT'') \<and>
           to_string N (js_or N (opt_field (opt_field data (ascii ''error'')) (ascii ''message''))
                          (js_or N (opt_field data (ascii ''message''))
                             (JStr (request_failed_prefix @ decimal (status response))))) = Inr shown"
    for response data shown
    unfolding o using that
    by (intro requestBackend_normalized [of fetch payload response data] normalize_other_error) simp_all
  moreover have "outcome =
             Inr \<lparr>summary = JStr quota_summary,
                  keyPoints = JArr [js_or N (opt_field data (ascii ''message'')) (JStr quota_default_message)],
                  conclusion = JStr quota_conclusion,
                  detailedAnalysis = js_or N (opt_field data (ascii ''message'')) (JStr quota_default_message),
                  sources = JUndefined\<rparr>"
    if "fetch (api_call payload) = Inr response \<and> json response = Inr data \<and>
           \<not> ok response \<and> data \<noteq> JUndefined \<and> data \<noteq> JNull \<and>
           (status response = 429 \<or> opt_field data (ascii ''error'') = JStr (ascii ''RATE_LIMIT''))"
    for response data
    unfolding o using that
    by (intro requestBackend_normalized [of fetch payload response data] normalize_quota) simp_all
  ultimately show ?thesis
    by blast
qed

text \<open>
  \<open>analyzeText\<close> when \<open>fetch\<close> rejects, and when the gateway answers 400 with its
  \<open>INVALID_REQUEST\<close> envelope: the error-shaped result, from the exception's message
  and from the envelope's.
\<close>

theorem adapter_never_throws_witness:
  "analyzeText no_numbers (failing (JsError TypeError (ascii ''Failed to fetch''))) (ascii ''hi'') =
     Inr (error_shaped (ascii ''Failed to fetch'') (JStr (ascii ''Failed to fetch'')))
   \<and> analyzeText no_numbers
       (answering \<lparr>status = 400,
                   json = Inr (JObj [(ascii ''error'', JStr (ascii ''INVALID_REQUEST'')),
                                     (ascii ''message'', JStr invalid_request_message)])\<rparr>) [] =
     Inr (error_shaped invalid_request_message (JStr invalid_request_message))"
proof -
  have m: "invalid_request_message \<noteq> []"
    by (simp add: invalid_request_message_def)
  have 1: "(analyzeText no_numbers (failing (JsError TypeError (ascii ''Failed to fetch''))) (ascii ''hi''),
            JObj [(ascii ''text'', JStr (ascii ''hi''))])
           \<in> set (adapter_calls no_numbers (failing (JsError TypeError (ascii ''Failed to fetch'')))
                     (ascii ''hi'') [])"
    by (simp add: adapter_calls_def)
  have 2: "(analyzeText no_numbers
              (answering \<lparr>status = 400,
                          json = Inr (JObj [(ascii ''error'', JStr (ascii ''INVALID_REQUEST'')),
                                            (ascii ''message'', JStr invalid_request_message)])\<rparr>) [],
            JObj [(ascii ''text'', JStr [])])
           \<in> set (adapter_calls no_numbers
                     (answering \<lparr>status = 400,
                                 json = Inr (JObj [(ascii ''error'', JStr (ascii ''INVALID_REQUEST'')),
                                                   (ascii ''message'', JStr invalid_request_message)])\<rparr>) [] [])"
    by (simp add: adapter_calls_def)
  have e: "opt_field (JObj [(ascii ''error'', JStr (ascii ''INVALID_REQUEST'')),
                            (ascii ''message'', JStr invalid_request_message)] :: unit jsval) (ascii ''error'')
             = JStr (ascii ''INVALID_REQUEST'')"
    "opt_field (JObj [(ascii ''error'', JStr (ascii ''INVALID_REQUEST'')),
                      (ascii ''message'', JStr invalid_request_message)] :: unit jsval) (ascii ''message'')
             = JStr invalid_request_message"
    by (simp_all add: opt_field_def ascii_def)
  have n: "ascii ''INVALID_REQUEST'' \<noteq> ascii ''RATE_LIMIT''"
    by (simp add: ascii_def)
  have u: "opt_field (JStr (ascii ''INVALID_REQUEST'') :: unit jsval) (ascii ''message'') = JUndefined"
    by (simp add: opt_field_def)
  from adapter_never_throws [OF 1]
  have a: "analyzeText no_numbers (failing (JsError TypeError (ascii ''Failed to fetch''))) (ascii ''hi'') =
     Inr (error_shaped (ascii ''Failed to fetch'') (JStr (ascii ''Failed to fetch'')))"
    by (simp add: failing_def)
  note t = adapter_never_throws [OF 2, THEN conjunct2, THEN conjunct2, THEN conjunct2, THEN conjunct2,
      THEN conjunct1, rule_format,
      of "\<lparr>status = 400,
           json = Inr (JObj [(ascii ''error'', JStr (ascii ''INVALID_REQUEST'')),
                             (ascii ''message'', JStr invalid_request_message)])\<rparr>"
         "JObj [(ascii ''error'', JStr (ascii ''INVALID_REQUEST'')),
                (ascii ''message'', JStr invalid_request_message)]"
         invalid_request_message]
  have b: "analyzeText no_numbers
       (answering \<lparr>status = 400,
                   json = Inr (JObj [(ascii ''error'', JStr (ascii ''INVALID_REQUEST'')),
                                     (ascii ''message'', JStr invalid_request_message)])\<rparr>) [] =
     Inr (error_shaped invalid_request_message (JStr invalid_request_message))"
    using t by (simp add: answering_def ok_def e n u js_or_def m)
  from a b show ?thesis ..
qed

subsection \<open>Every result is populated, with the defaults of lines 54-57\<close>

text \<open>
  \<^bold>\<open>Claim C8.\<close> In the result of any of the seven operations, on every path through
  \<open>requestBackend\<close>, \<open>summary\<close>, \<open>keyPoints\<close> and \<open>conclusion\<close> are defined. Where the
  upstream text holds a brace and parses as JSON, each field is the parsed value's if
  that is truthy, and otherwise (absent, in particular) its default: the marker of line
  54 for \<open>summary\<close>, the empty array for \<open>keyPoints\<close>, the empty string for
  \<open>conclusion\<close>, the text itself for \<open>detailedAnalysis\<close>.
\<close>

theorem results_fully_populated:
  assumes "(outcome, payload) \<in> set (adapter_calls N fetch a m)" and "outcome = Inr r"
  shows "fully_populated N r
    \<and> (\<forall>response data txt v.
          fetch (api_call payload) = Inr response \<and> ok response \<and> json response = Inr data \<and>
          extract_text N data = Inr (JStr txt) \<and> contains (ascii ''{'') txt \<and>
          JSON_parse N (trim (strip_fences txt)) = Inr v \<and>
          v \<noteq> JUndefined \<and> v \<noteq> JNull \<longrightarrow>
          r = \<lparr>summary = js_or N (opt_field v (ascii ''summary'')) (JStr analysis_done),
               keyPoints = js_or N (opt_field v (ascii ''keyPoints'')) (JArr []),
               conclusion = js_or N (opt_field v (ascii ''conclusion'')) (JStr []),
               detailedAnalysis = js_or N (opt_field v (ascii ''detailedAnalysis'')) (JStr txt),
               sources = JUndefined\<rparr>)"
proof -
  have o: "requestBackend N fetch payload = Inr r"
    using assms adapter_calls_requestBackend by fastforce
  show ?thesis
    using requestBackend_populated [OF o] requestBackend_structured [OF o] by blast
qed

text \<open>
  \<open>analyzeText\<close> on the upstream text \<open>{}\<close>, in which every field is absent: the
  result holds the four defaults, and is populated.
\<close>

theorem results_fully_populated_witness:
  "analyzeText no_numbers
     (answering \<lparr>status = 200, json = Inr (success_envelope (ascii ''{}''))\<rparr>) (ascii ''hi'') =
   Inr \<lparr>summary = JStr analysis_done, keyPoints = JArr [], conclusion = JStr [],
        detailedAnalysis = JStr (ascii ''{}''), sources = JUndefined\<rparr>
   \<and> fully_populated no_numbers
       \<lparr>summary = JStr analysis_done, keyPoints = JArr [], conclusion = JStr [],
        detailedAnalysis = JStr (ascii ''{}'') :: unit jsval, sources = JUndefined\<rparr>"
proof -
  let ?fetch = "answering \<lparr>status = 200, json = Inr (success_envelope (ascii ''{}'') :: unit jsval)\<rparr>"
  have mem: "(analyzeText no_numbers ?fetch (ascii ''hi''), JObj [(ascii ''text'', JStr (ascii ''hi''))])
               \<in> set (adapter_calls no_numbers ?fetch (ascii ''hi'') [])"
    by (simp add: adapter_calls_def)
  obtain r where r: "analyzeText no_numbers ?fetch (ascii ''hi'') = Inr r"
    using requestBackend_resolves [of no_numbers ?fetch] by (auto simp: analyzeText_def)
  have e: "extract_text no_numbers (success_envelope (ascii ''{}'')) = Inr (JStr (ascii ''{}''))"
    by (rule extract_envelope) (simp add: ascii_def)
  have c: "contains (ascii ''{'') (ascii ''{}'')"
    by (simp add: ascii_def)
  note t = results_fully_populated [OF mem r]
  from t have p: "fully_populated no_numbers r" ..
  from t have "r = \<lparr>summary = js_or no_numbers (opt_field (JObj []) (ascii ''summary'')) (JStr analysis_done),
               keyPoints = js_or no_numbers (opt_field (JObj []) (ascii ''keyPoints'')) (JArr []),
               conclusion = js_or no_numbers (opt_field (JObj []) (ascii ''conclusion'')) (JStr []),
               detailedAnalysis = js_or no_numbers (opt_field (JObj []) (ascii ''detailedAnalysis'')) (JStr (ascii ''{}'')),
               sources = JUndefined\<rparr>"
    using e c parse_empty_object [of no_numbers]
    by (auto simp: answering_def ok_def)
  then have "r = \<lparr>summary = JStr analysis_done, keyPoints = JArr [], conclusion = JStr [],
        detailedAnalysis = JStr (ascii ''{}''), sources = JUndefined\<rparr>"
    by (simp add: opt_field_def js_or_def)
  with r p show ?thesis
    by simp
qed

subsection \<open>The quota result\<close>

text \<open>
  What the gateway sends with status 429 is normalized to the quota result, with the
  gateway's message of line 113 as the key point.
\<close>

lemma gateway_429_normalized:
  assumes "handler N env load upstream req = Inr (reply, calls)" and "res_status reply = 429"
  shows "normalize N \<lparr>status = res_status reply, json = Inr (res_body reply)\<rparr> (res_body reply) =
     Inr \<lparr>summary = JStr quota_summary, keyPoints = JArr [JStr rate_limit_message],
          conclusion = JStr quota_conclusion, detailedAnalysis = JStr rate_limit_message,
          sources = JUndefined\<rparr>"
proof -
  from assms obtain data where
    b: "res_body reply = JObj [(ascii ''error'', JStr (ascii ''RATE_LIMIT'')),
                               (ascii ''message'', JStr rate_limit_message), (ascii ''raw'', data)]"
    using handler_429_body by blast
  have m: "opt_field (res_body reply) (ascii ''message'') = JStr rate_limit_message"
    unfolding b by (simp add: opt_field_def ascii_def)
  have "rate_limit_message \<noteq> []"
    by (simp add: rate_limit_message_def ascii_def)
  then have "js_or N (JStr rate_limit_message) (JStr quota_default_message) = JStr rate_limit_message"
    by (simp add: js_or_def)
  moreover have "normalize N \<lparr>status = res_status reply, json = Inr (res_body reply)\<rparr> (res_body reply) =
     Inr \<lparr>summary = JStr quota_summary,
          keyPoints = JArr [js_or N (opt_field (res_body reply) (ascii ''message'')) (JStr quota_default_message)],
          conclusion = JStr quota_conclusion,
          detailedAnalysis = js_or N (opt_field (res_body reply) (ascii ''message'')) (JStr quota_default_message),
          sources = JUndefined\<rparr>"
    using assms(2) by (intro normalize_quota) (simp_all add: ok_def b)
  ultimately show ?thesis
    by (simp add: m)
qed

lemma null_message_throws:
  "status response = 429 \<Longrightarrow>
     normalize N response JNull = Inl (cannot_read (ascii ''null'') (ascii ''message''))"
  by (simp add: normalize_def ok_def error_result_def and_then_def)

text \<open>
  \<^bold>\<open>Claim C4\<close>, as amended. A response with status 429 whose body \<open>response.json()\<close>
  reads as JSON other than \<open>null\<close> (every 429 reply of the gateway is such,
  \<open>gateway_429_normalized\<close>) is normalized to the result whose \<open>summary\<close> is the fixed
  quota text of line 29 and whose \<open>keyPoints\<close> is the one-element array of
  \<open>data.message\<close>, or of the default message of line 27 when there is no (truthy)
  \<open>message\<close>. When the body cannot be read as JSON, or is \<open>null\<close>, the exception is
  caught in lines 71-79: the summary is the error prefix followed by the exception's
  message, and there are no key points.
\<close>

theorem quota_on_429:
  assumes "fetch (api_call payload) = Inr response" and "status response = 429"
  shows "(\<forall>data. json response = Inr data \<and> data \<noteq> JUndefined \<and> data \<noteq> JNull \<longrightarrow>
            requestBackend N fetch payload =
              Inr \<lparr>summary = JStr quota_summary,
                   keyPoints = JArr [js_or N (opt_field data (ascii ''message'')) (JStr quota_default_message)],
                   conclusion = JStr quota_conclusion,
                   detailedAnalysis = js_or N (opt_field data (ascii ''message'')) (JStr quota_default_message),
                   sources = JUndefined\<rparr>)
    \<and> (\<forall>e. json response = Inl e \<longrightarrow>
            requestBackend N fetch payload =
              Inr \<lparr>summary = JStr (error_prefix @ message e), keyPoints = JArr [],
                   conclusion = JStr request_failed, detailedAnalysis = JStr (message e),
                   sources = JUndefined\<rparr>)
    \<and> (json response = Inr JNull \<longrightarrow>
            requestBackend N fetch payload =
              Inr \<lparr>summary = JStr (error_prefix @ message (cannot_read (ascii ''null'') (ascii ''message''))),
                   keyPoints = JArr [], conclusion = JStr request_failed,
                   detailedAnalysis = JStr (message (cannot_read (ascii ''null'') (ascii ''message''))),
                   sources = JUndefined\<rparr>)"
proof -
  have k: "\<not> ok response"
    using assms(2) by (simp add: ok_def)
  have "requestBackend N fetch payload =
              Inr \<lparr>summary = JStr quota_summary,
                   keyPoints = JArr [js_or N (opt_field data (ascii ''message'')) (JStr quota_default_message)],
                   conclusion = JStr quota_conclusion,
                   detailedAnalysis = js_or N (opt_field data (ascii ''message'')) (JStr quota_default_message),
                   sources = JUndefined\<rparr>"
    if "json response = Inr data \<and> data \<noteq> JUndefined \<and> data \<noteq> JNull" for data
    using that assms k
    by (intro requestBackend_normalized [of fetch payload response data] normalize_quota) simp_all
  moreover have "requestBackend N fetch payload =
              Inr \<lparr>summary = JStr (error_prefix @ message e), keyPoints = JArr [],
                   conclusion = JStr request_failed, detailedAnalysis = JStr (message e),
                   sources = JUndefined\<rparr>"
    if "json response = Inl e" for e
    using assms(1) that
    by (simp add: requestBackend_unreadable [of fetch payload response] error_shaped_def)
  moreover have "requestBackend N fetch payload =
              Inr \<lparr>summary = JStr (error_prefix @ message (cannot_read (ascii ''null'') (ascii ''message''))),
                   keyPoints = JArr [], conclusion = JStr request_failed,
                   detailedAnalysis = JStr (message (cannot_read (ascii ''null'') (ascii ''message''))),
                   sources = JUndefined\<rparr>"
    if "json response = Inr JNull"
    using assms(1) that null_message_throws [OF assms(2), of N]
    by (simp add: requestBackend_exception [of fetch payload response JNull] error_shaped_def)
  ultimately show ?thesis
    by blast
qed

text \<open>At the reply the gateway sends for an upstream 429: the key point is its message.\<close>

theorem quota_on_429_witness:
  "requestBackend no_numbers
     (answering \<lparr>status = 429,
                 json = Inr (JObj [(ascii ''error'', JStr (ascii ''RATE_LIMIT'')),
                                   (ascii ''message'', JStr rate_limit_message),
                                   (ascii ''raw'', JObj [])])\<rparr>)
     (JObj [(ascii ''text'', JStr (ascii ''hi''))]) =
   Inr \<lparr>summary = JStr quota_summary, keyPoints = JArr [JStr rate_limit_message],
        conclusion = JStr quota_conclusion, detailedAnalysis = JStr rate_limit_message,
        sources = JUndefined\<rparr>"
  using quota_on_429 [of
      "answering \<lparr>status = 429,
                  json = Inr (JObj [(ascii ''error'', JStr (ascii ''RATE_LIMIT'')),
                                    (ascii ''message'', JStr rate_limit_message),
                                    (ascii ''raw'', JObj [])])\<rparr>"
      "JObj [(ascii ''text'', JStr (ascii ''hi''))]"
      "\<lparr>status = 429,
        json = Inr (JObj [(ascii ''error'', JStr (ascii ''RATE_LIMIT'')),
                          (ascii ''message'', JStr rate_limit_message),
                          (ascii ''raw'', JObj [])])\<rparr>"
      no_numbers, THEN conjunct1, rule_format, of
      "JObj [(ascii ''error'', JStr (ascii ''RATE_LIMIT'')),
             (ascii ''message'', JStr rate_limit_message),
             (ascii ''raw'', JObj [])]"]
  by (simp add: answering_def opt_field_def js_or_def rate_limit_message_def) (simp add: ascii_def)

text \<open>
  Claim C4 as stated fails where a response with status 429 has a body that is not JSON,
  or the body \<open>null\<close>: reading the body, or \<open>data.message\<close>, throws, and the result is
  the one of the \<open>catch\<close>, whose summary is not the quota text and whose key points are
  empty.
\<close>

theorem unreadable_429_counterexample:
  "requestBackend no_numbers (answering \<lparr>status = 429, json = Inl syntax_error\<rparr>)
     (JObj [(ascii ''text'', JStr (ascii ''hi''))]) =
     Inr \<lparr>summary = JStr (error_prefix @ ascii ''Unexpected token in JSON''), keyPoints = JArr [],
          conclusion = JStr request_failed,
          detailedAnalysis = JStr (ascii ''Unexpected token in JSON''), sources = JUndefined\<rparr>
   \<and> requestBackend no_numbers (answering \<lparr>status = 429, json = Inr JNull\<rparr>)
     (JObj [(ascii ''text'', JStr (ascii ''hi''))]) =
     Inr \<lparr>summary = JStr (error_prefix @ message (cannot_read (ascii ''null'') (ascii ''message''))),
          keyPoints = JArr [], conclusion = JStr request_failed,
          detailedAnalysis = JStr (message (cannot_read (ascii ''null'') (ascii ''message''))),
          sources = JUndefined\<rparr>
   \<and> error_prefix @ ascii ''Unexpected token in JSON'' \<noteq> quota_summary
   \<and> error_prefix @ message (cannot_read (ascii ''null'') (ascii ''message'')) \<noteq> quota_summary"
  by (simp add: requestBackend_def requestBackend_try_def answering_def and_then_def normalize_def
      ok_def error_result_def syntax_error_def error_prefix_def quota_summary_def cannot_read_def)
     (simp add: ascii_def)

text \<open>
  \<^bold>\<open>Claim C9.\<close> A response that is not \<open>ok\<close> and whose body has \<open>error\<close> equal to
  \<open>"RATE_LIMIT"\<close> is normalized to the quota result whatever its status: line 26 tests
  the status first and the error kind second.
\<close>

theorem quota_on_error_kind:
  assumes "fetch (api_call payload) = Inr response" and "\<not> ok response"
    and "json response = Inr data" and "opt_field data (ascii ''error'') = JStr (ascii ''RATE_LIMIT'')"
  shows "requestBackend N fetch payload =
     Inr \<lparr>summary = JStr quota_summary,
          keyPoints = JArr [js_or N (opt_field data (ascii ''message'')) (JStr quota_default_message)],
          conclusion = JStr quota_conclusion,
          detailedAnalysis = js_or N (opt_field data (ascii ''message'')) (JStr quota_default_message),
          sources = JUndefined\<rparr>"
proof -
  have "data \<noteq> JUndefined" "data \<noteq> JNull"
    using assms(4) by (auto simp: opt_field_def)
  then show ?thesis
    using assms by (simp add: requestBackend_def requestBackend_try_def and_then_def normalize_quota)
qed

text \<open>At status 503 with the body \<open>{error: "RATE_LIMIT"}\<close>: the quota result, default message.\<close>

theorem quota_on_error_kind_witness:
  "\<not> ok \<lparr>status = 503, json = Inr (JObj [(ascii ''error'', JStr (ascii ''RATE_LIMIT''))] :: unit jsval)\<rparr> \<and>
   requestBackend no_numbers
     (answering \<lparr>status = 503, json = Inr (JObj [(ascii ''error'', JStr (ascii ''RATE_LIMIT''))])\<rparr>)
     (JObj [(ascii ''text'', JStr (ascii ''hi''))]) =
   Inr \<lparr>summary = JStr quota_summary, keyPoints = JArr [JStr quota_default_message],
        conclusion = JStr quota_conclusion, detailedAnalysis = JStr quota_default_message,
        sources = JUndefined\<rparr>"
proof -
  have k: "\<not> ok \<lparr>status = 503,
                  json = Inr (JObj [(ascii ''error'', JStr (ascii ''RATE_LIMIT''))] :: unit jsval)\<rparr>"
    by (simp add: ok_def)
  show ?thesis
    using k quota_on_error_kind [of
      "answering \<lparr>status = 503, json = Inr (JObj [(ascii ''error'', JStr (ascii ''RATE_LIMIT''))])\<rparr>"
      "JObj [(ascii ''text'', JStr (ascii ''hi''))]"
      "\<lparr>status = 503, json = Inr (JObj [(ascii ''error'', JStr (ascii ''RATE_LIMIT''))])\<rparr>"
      "JObj [(ascii ''error'', JStr (ascii ''RATE_LIMIT''))]" no_numbers]
    by (simp add: answering_def opt_field_def js_or_def) (simp add: ascii_def)
qed

subsection \<open>The data-URL prefix\<close>

text \<open>
  \<^bold>\<open>Claim C7.\<close> For an image given as a data URL, a header without a comma, a
  comma, and non-empty base64 data (which has no comma), \<open>analyzeImage\<close> sends the
  payload whose \<open>image\<close> is the data alone; and it sends the same payload when given
  the data alone.
\<close>

theorem analyzeImage_strips_prefix:
  assumes "0x2C \<notin> set header" and "0x2C \<notin> set d" and "d \<noteq> []"
  shows "analyzeImage N fetch (header @ [0x2C] @ d) =
           requestBackend N fetch (JObj [(ascii ''text'', JStr image_instruction), (ascii ''image'', JStr d)])
         \<and> analyzeImage N fetch d =
           requestBackend N fetch (JObj [(ascii ''text'', JStr image_instruction), (ascii ''image'', JStr d)])"
  using assms by (simp add: analyzeImage_def strip_prefix_data_url strip_prefix_bare)

text \<open>At \<open>data:image/png;base64,AAAA\<close> the payload's image is \<open>AAAA\<close>.\<close>

theorem analyzeImage_strips_prefix_witness:
  "analyzeImage no_numbers (answering \<lparr>status = 200, json = Inr (success_envelope (ascii ''a cat''))\<rparr>)
     (ascii ''data:image/png;base64,AAAA'') =
   requestBackend no_numbers (answering \<lparr>status = 200, json = Inr (success_envelope (ascii ''a cat''))\<rparr>)
     (JObj [(ascii ''text'', JStr image_instruction), (ascii ''image'', JStr (ascii ''AAAA''))])"
  using analyzeImage_strips_prefix [of "ascii ''data:image/png;base64''" "ascii ''AAAA''" no_numbers
      "answering \<lparr>status = 200, json = Inr (success_envelope (ascii ''a cat''))\<rparr>"]
  by (simp add: ascii_def)

subsection \<open>Structured results\<close>

lemma parse_bare:
  "JSON_parse N bare_json =
     Inr (JObj [(ascii ''summary'', JStr (ascii ''S'')), (ascii ''keyPoints'', JArr [JStr (ascii ''a'')]),
                (ascii ''conclusion'', JStr (ascii ''C''))])"
  by (simp add: bare_json_def JSON_parse_def ascii_def parse_numeral skip_ws_def)

lemma parse_prefixed: "JSON_parse N prefixed_json = Inl syntax_error"
  by (simp add: prefixed_json_def bare_json_def JSON_parse_def ascii_def parse_numeral skip_ws_def
      number_token_def optional_sign_def integer_part_def digits1_def is_digit_def)

lemma text_facts:
  "strip_fences bare_json = bare_json" "strip_fences prefixed_json = prefixed_json"
  "trim bare_json = bare_json" "trim prefixed_json = prefixed_json"
  "contains (ascii ''{'') bare_json" "contains (ascii ''{'') prefixed_json"
  "bare_json \<noteq> []" "prefixed_json \<noteq> []" "take 100 prefixed_json = prefixed_json"
  by (simp_all add: prefixed_json_def bare_json_def ascii_def fence_def trim_def is_js_whitespace_def)

lemma structured_bare:
  "structured_result N (JStr bare_json) =
     Inr (Some \<lparr>summary = JStr (ascii ''S''), keyPoints = JArr [JStr (ascii ''a'')],
                conclusion = JStr (ascii ''C''), detailedAnalysis = JStr bare_json,
                sources = JUndefined\<rparr>)"
  by (simp add: structured_result_def and_then_def text_facts parse_bare js_or_def)
     (simp add: ascii_def)

lemma structured_prefixed: "structured_result N (JStr prefixed_json) = Inl syntax_error"
  by (simp add: structured_result_def and_then_def text_facts parse_prefixed)

text \<open>
  The defaults of lines 54-57: for the text \<open>{}\<close> every field falls back, \<open>summary\<close>
  to the marker of line 54, \<open>keyPoints\<close> to the empty array, \<open>conclusion\<close> to the
  empty string, \<open>detailedAnalysis\<close> to the text.
\<close>

lemma empty_object_defaults:
  "requestBackend N (answering \<lparr>status = 200, json = Inr (success_envelope (ascii ''{}''))\<rparr>) payload =
     Inr \<lparr>summary = JStr analysis_done, keyPoints = JArr [], conclusion = JStr [],
          detailedAnalysis = JStr (ascii ''{}''), sources = JUndefined\<rparr>"
proof -
  have e: "extract_text N (success_envelope (ascii ''{}'')) = Inr (JStr (ascii ''{}''))"
    by (rule extract_envelope) (simp add: ascii_def)
  have p: "JSON_parse N (ascii ''{}'') = Inr (JObj [])"
    by (simp add: JSON_parse_def ascii_def parse_numeral skip_ws_def)
  have t: "trim (strip_fences (ascii ''{}'')) = ascii ''{}''"
    by (simp add: ascii_def fence_def trim_def is_js_whitespace_def)
  have "structured_result N (JStr (ascii ''{}'')) =
     Inr (Some \<lparr>summary = JStr analysis_done, keyPoints = JArr [], conclusion = JStr [],
                detailedAnalysis = JStr (ascii ''{}''), sources = JUndefined\<rparr>)"
    by (simp add: structured_result_def and_then_def t p js_or_def) (simp add: ascii_def)
  then show ?thesis
    by (simp add: requestBackend_def requestBackend_try_def answering_def normalize_def ok_def
        success_result_def e and_then_def)
qed

text \<open>
  \<^bold>\<open>Claim C1\<close>, as amended. For a success envelope whose text is exactly the JSON
  object \<open>{"summary":"S","keyPoints":["a"],"conclusion":"C"}\<close>, \<open>requestBackend\<close> returns
  summary \<open>S\<close>, key points \<open>["a"]\<close>, conclusion \<open>C\<close>, and the text itself as
  \<open>detailedAnalysis\<close>. With the words \<open>Result:\<close> in front, the text is not JSON,
  \<open>JSON.parse\<close> throws, and the plain-text result is returned: the text followed by
  \<open>...\<close> as summary, the text as the one key point and as \<open>detailedAnalysis\<close>, the
  marker of line 67 as conclusion.
\<close>

theorem bare_json_structured:
  "requestBackend N (answering \<lparr>status = 200, json = Inr (success_envelope bare_json)\<rparr>) payload =
     Inr \<lparr>summary = JStr (ascii ''S''), keyPoints = JArr [JStr (ascii ''a'')],
          conclusion = JStr (ascii ''C''), detailedAnalysis = JStr bare_json, sources = JUndefined\<rparr>
   \<and> requestBackend N (answering \<lparr>status = 200, json = Inr (success_envelope prefixed_json)\<rparr>) payload =
     Inr \<lparr>summary = JStr (prefixed_json @ ascii ''...''), keyPoints = JArr [JStr prefixed_json],
          conclusion = JStr parse_done, detailedAnalysis = JStr prefixed_json, sources = JUndefined\<rparr>"
  by (simp add: requestBackend_def requestBackend_try_def answering_def normalize_def ok_def
      success_result_def extract_envelope text_facts and_then_def structured_bare structured_prefixed
      plain_result_def)

text \<open>
  Claim C1 as stated fails: for the text \<open>Result: {"summary":"S", ...}\<close> the result is
  not the structured one.
\<close>

theorem prefixed_json_counterexample:
  "requestBackend no_numbers
     (answering \<lparr>status = 200, json = Inr (success_envelope prefixed_json)\<rparr>)
     (JObj [(ascii ''text'', JStr (ascii ''hi''))]) \<noteq>
     Inr \<lparr>summary = JStr (ascii ''S''), keyPoints = JArr [JStr (ascii ''a'')],
          conclusion = JStr (ascii ''C''), detailedAnalysis = JStr prefixed_json, sources = JUndefined\<rparr>"
  by (simp add: requestBackend_def requestBackend_try_def answering_def normalize_def ok_def
      success_result_def extract_envelope text_facts and_then_def structured_prefixed plain_result_def
      parse_done_def) (simp add: ascii_def)

end
